theory Spec2Isabelle
  imports
    Complex_Main
    "HOL-Library.AList"
    "HOL-Library.Multiset"
    "HOL-Library.Char_ord"
    "HOL-Library.List_Lexorder"
begin

section \<open>Data model\<close>

text \<open>
  Go's \<open>uint\<close> row identifiers are natural numbers, Go's \<open>int\<close> is \<open>int\<close> (no
  value here comes near the 64-bit bounds: counters only grow by one from 0 up to a bound
  that is itself an \<open>int\<close>). A nullable \<open>*bool\<close> column is a \<open>bool option\<close>. A Go map
  built by the code is an association list kept with \<open>AList.update\<close>, read with
  \<open>map_of\<close>; its \<open>len\<close> is the length of the list.
\<close>

type_synonym uint = nat

text \<open>
  Modelled from the spec: the type \<open>cooldown.Category\<close> (package \<open>service/cooldown\<close>)
  with its four categories none, client, key and provider.
\<close>

datatype Category = CategoryNone | CategoryClient | CategoryKey | CategoryProvider

record Provider =
  prov_ID :: uint
  prov_Name :: string
  prov_Type :: string
  prov_Config :: string

record Model =
  model_ID :: uint
  model_Name :: string
  model_MaxRetry :: int
  model_TimeOut :: int
  model_IOLog :: "bool option"
  model_Strategy :: string

record ModelWithProvider =
  mwp_ID :: uint
  mwp_ModelID :: uint
  mwp_ProviderModel :: string
  mwp_ProviderID :: uint
  mwp_ToolCall :: "bool option"
  mwp_StructuredOutput :: "bool option"
  mwp_Image :: "bool option"
  mwp_WithHeader :: "bool option"
  mwp_Status :: "bool option"
  mwp_Weight :: int

record ProvidersWithMeta =
  ModelWithProviderMap :: "(uint \<times> ModelWithProvider) list"
  WeightItems :: "(uint \<times> int) list"
  ProviderMap :: "(uint \<times> Provider) list"
  MaxRetry :: int
  TimeOut :: int
  IOLog :: bool
  Strategy :: string

section \<open>The dispatcher: \<open>BalanceChat\<close> (service/chat.go)\<close>

subsection \<open>Balancer selection\<close>

datatype BalancerKind = SmoothWeightedRR | Rotor | Lottery | ConsistentHash

definition BalancerLottery :: string where "BalancerLottery = ''lottery''"
definition BalancerRotor :: string where "BalancerRotor = ''rotor''"
definition BalancerSmoothWeightedRR :: string where
  "BalancerSmoothWeightedRR = ''smooth_weighted_rr''"

text \<open>The \<open>switch providersWithMeta.Strategy\<close> of \<open>BalanceChat\<close>, with its four arms.\<close>

definition newBalancer :: "string \<Rightarrow> BalancerKind" where
  "newBalancer strategy =
     (if strategy = BalancerSmoothWeightedRR then SmoothWeightedRR
      else if strategy = BalancerRotor then Rotor
      else if strategy = BalancerLottery \<or> strategy = [] then Lottery
      else Lottery)"

subsection \<open>Effects and environment\<close>

text \<open>
  Everything \<open>BalanceChat\<close> does to its collaborators is recorded, in order, in a log of
  actions. \<open>ClientDo\<close> is the upstream HTTP call (\<open>client.Do(req)\<close>).
\<close>

datatype Action =
    NewBalancer BalancerKind
  | BalancerPop
  | BalancerDelete uint
  | BalancerReduce uint
  | KeyPoolPick uint
  | RetryLogSend int
  | CooldownOnError uint Category
  | KeyPoolOnError uint Category
  | ClientDo uint
  | ReadBody
  | BodyClose
  | SaveChatLog

text \<open>
  The collaborators (context, timer, balancer, cooldown manager, provider factory, key
  pool, request builder, HTTP client, chat-log store) are outside the function; what each
  answers in one pass of the loop is given by an \<open>AttemptEnv\<close>. Every balancer policy
  is covered this way: a balancer is some sequence of \<open>Pop\<close> answers, and the calls of
  \<open>Reduce\<close> and \<open>Delete\<close> it receives are in the log.
\<close>

datatype SelectCase = CtxDone string | TimerFired | SelectDefault

record AttemptEnv =
  env_select :: SelectCase
  env_pop :: "string + uint"
  env_inCooldown :: bool
  env_providersNew :: "string option"
  env_keyPick :: "uint option"
  env_buildReq :: "string option"
  env_clientDo :: "string + int"
  env_saveChatLog :: "string + uint"

datatype Outcome = Response int uint | Failure string | Panic string

record DState =
  retry :: int
  cooldownSkipped :: int
  actions :: "Action list"

definition emit :: "Action list \<Rightarrow> DState \<Rightarrow> DState" where
  "emit as s = s\<lparr>actions := actions s @ as\<rparr>"

definition http_calls :: "DState \<Rightarrow> nat" where
  "http_calls s = length (filter (\<lambda>a. case a of ClientDo _ \<Rightarrow> True | _ \<Rightarrow> False) (actions s))"

text \<open>
  The feedback after a failed attempt: cooldown \<open>OnError\<close> on the association and, when
  \<open>keyID > 0\<close>, key-pool \<open>OnError\<close> on the key, both with the same category.
\<close>

definition onErrorFeedback :: "ModelWithProvider \<Rightarrow> uint \<Rightarrow> Category \<Rightarrow> Action list" where
  "onErrorFeedback m keyID category =
     CooldownOnError (mwp_ID m) category #
     (if keyID > 0 then [KeyPoolOnError keyID category] else [])"

text \<open>The branch \<open>res.StatusCode != http.StatusOK\<close>.\<close>

definition onBadStatus ::
  "(int \<Rightarrow> Category) \<Rightarrow> uint \<Rightarrow> ModelWithProvider \<Rightarrow> uint \<Rightarrow> int \<Rightarrow> DState \<Rightarrow> DState" where
  "onBadStatus ClassifyStatus ident m keyID status s =
     (let category = ClassifyStatus status in
      emit ([ReadBody, RetryLogSend (retry s)] @ onErrorFeedback m keyID category @
            [if category = CategoryKey then BalancerReduce ident else BalancerDelete ident,
             BodyClose]) s)"

text \<open>
  From the key pool to the end of one pass: pick a key, build the request, call the
  upstream, look at the status.
\<close>

definition sendAttempt ::
  "(int \<Rightarrow> Category) \<Rightarrow> ProvidersWithMeta \<Rightarrow> AttemptEnv \<Rightarrow> uint \<Rightarrow> ModelWithProvider \<Rightarrow>
   DState \<Rightarrow> Outcome option \<times> DState" where
  "sendAttempt ClassifyStatus p e ident m s =
     (let providerID = (case map_of (ProviderMap p) (mwp_ProviderID m) of
                          None \<Rightarrow> 0 | Some pr \<Rightarrow> prov_ID pr);
          keyID = (case env_keyPick e of None \<Rightarrow> 0 | Some kid \<Rightarrow> kid);
          s1 = emit [KeyPoolPick providerID] s
      in case env_buildReq e of
           Some err \<Rightarrow>
             (None, emit ([RetryLogSend (retry s1), BalancerDelete ident] @
                          onErrorFeedback m keyID CategoryProvider) s1)
         | None \<Rightarrow>
             (let s2 = emit [ClientDo ident] s1 in
              case env_clientDo e of
                Inl err \<Rightarrow>
                  (None, emit ([RetryLogSend (retry s2), BalancerDelete ident] @
                               onErrorFeedback m keyID CategoryProvider) s2)
              | Inr status \<Rightarrow>
                  if status \<noteq> 200 then (None, onBadStatus ClassifyStatus ident m keyID status s2)
                  else (case env_saveChatLog e of
                          Inl err \<Rightarrow> (Some (Failure err), emit [SaveChatLog, BodyClose] s2)
                        | Inr logId \<Rightarrow> (Some (Response status logId), emit [SaveChatLog] s2))))"

text \<open>
  One pass of the \<open>for retry < retries\<close> loop body (the \<open>select\<close> and its default arm).
  \<open>None\<close> is \<open>continue\<close>; \<open>Some\<close> is a \<open>return\<close>.
\<close>

definition attempt ::
  "(int \<Rightarrow> Category) \<Rightarrow> ProvidersWithMeta \<Rightarrow> int \<Rightarrow> AttemptEnv \<Rightarrow> DState \<Rightarrow>
   Outcome option \<times> DState" where
  "attempt ClassifyStatus p activeProviders e s =
     (case env_select e of
        CtxDone err \<Rightarrow> (Some (Failure err), s)
      | TimerFired \<Rightarrow> (Some (Failure ''retry time out''), s)
      | SelectDefault \<Rightarrow>
          (case env_pop e of
             Inl err \<Rightarrow> (Some (Failure err), emit [BalancerPop] s)
           | Inr ident \<Rightarrow>
               (let s1 = emit [BalancerPop] s in
                case map_of (ModelWithProviderMap p) ident of
                  None \<Rightarrow> (None, emit [BalancerDelete ident] s1)
                | Some m \<Rightarrow>
                    if env_inCooldown e then
                      (let s2 = emit [BalancerReduce ident]
                                  (s1\<lparr>cooldownSkipped := cooldownSkipped s1 + 1\<rparr>)
                       in if cooldownSkipped s2 \<ge> activeProviders
                          then (Some (Failure ''all providers are in cooldown''), s2)
                          else (None, s2))
                    else
                      (let s2 = s1\<lparr>cooldownSkipped := 0, retry := retry s1 + 1\<rparr> in
                       case env_providersNew e of
                         Some err \<Rightarrow> (Some (Failure err), s2)
                       | None \<Rightarrow> sendAttempt ClassifyStatus p e ident m s2))))"

text \<open>
  The loop. It can run without end (a balancer that keeps popping an unknown id), so it
  runs on the list of environment answers: when the list is used up and the loop has
  not returned, the outcome is \<open>None\<close>, with the state reached so far.
\<close>

fun retryLoop ::
  "(int \<Rightarrow> Category) \<Rightarrow> ProvidersWithMeta \<Rightarrow> int \<Rightarrow> int \<Rightarrow> AttemptEnv list \<Rightarrow> DState \<Rightarrow>
   Outcome option \<times> DState" where
  "retryLoop ClassifyStatus p retries activeProviders [] s =
     (if retry s < retries then (None, s)
      else (Some (Failure ''maximum retry attempts reached''), s))"
| "retryLoop ClassifyStatus p retries activeProviders (e # es) s =
     (if retry s < retries then
        (case attempt ClassifyStatus p activeProviders e s of
           (None, s') \<Rightarrow> retryLoop ClassifyStatus p retries activeProviders es s'
         | (Some r, s') \<Rightarrow> (Some r, s'))
      else (Some (Failure ''maximum retry attempts reached''), s))"

definition clampRetries :: "int \<Rightarrow> int" where
  "clampRetries maxRetry = (if maxRetry \<le> 0 then 1 else maxRetry)"

definition countActiveProviders :: "ProvidersWithMeta \<Rightarrow> int" where
  "countActiveProviders p =
     (let activeProviders = int (length (WeightItems p)) in
      if activeProviders = 0 then int (length (ModelWithProviderMap p)) else activeProviders)"

text \<open>
  \<open>BalanceChat\<close>. \<open>make(chan models.ChatLog, providersWithMeta.MaxRetry)\<close> comes first and
  panics on a negative size; then the balancer is built, then the retry bound and the
  number of active providers are computed, then the loop runs.
\<close>

definition BalanceChat ::
  "(int \<Rightarrow> Category) \<Rightarrow> ProvidersWithMeta \<Rightarrow> AttemptEnv list \<Rightarrow> Outcome option \<times> DState" where
  "BalanceChat ClassifyStatus p envs =
     (let s0 = \<lparr>retry = 0, cooldownSkipped = 0, actions = []\<rparr> in
      if MaxRetry p < 0 then (Some (Panic ''makechan: size out of range''), s0)
      else
        (let s1 = emit [NewBalancer (newBalancer (Strategy p))] s0;
             retries = clampRetries (MaxRetry p);
             activeProviders = countActiveProviders p
         in if activeProviders = 0 then (Some (Failure ''no active providers''), s1)
            else retryLoop ClassifyStatus p retries activeProviders envs s1))"

section \<open>The eligibility query: \<open>ProvidersWithMetaBymodelsName\<close> (service/chat.go)\<close>

text \<open>
  The store is three tables of live rows (rows with \<open>deleted_at\<close> set are not in them),
  each in primary-key order, and what the store answers when a call fails for a reason
  of its own: an error for each of the three queries and for the write of a chat log.
\<close>

record DB =
  db_models :: "Model list"
  db_modelWithProviders :: "ModelWithProvider list"
  db_providers :: "Provider list"
  db_firstModelErr :: "string option"
  db_findAssocErr :: "string option"
  db_findProviderErr :: "string option"
  db_saveChatLogErr :: "string option"

text \<open>What the pre-processor extracted from the request; \<open>raw\<close> is the request body.\<close>

record 'body Before =
  before_Model :: string
  before_Stream :: bool
  before_toolCall :: bool
  before_structuredOutput :: bool
  before_image :: bool
  before_raw :: 'body

text \<open>
  The \<open>Where\<close> chain on the associations: \<open>model_id = ?\<close>, \<open>status = true\<close> and one
  \<open>= true\<close> condition for each capability the request needs. A NULL flag is not
  \<open>= true\<close>.
\<close>

definition assocMatches :: "uint \<Rightarrow> 'body Before \<Rightarrow> ModelWithProvider \<Rightarrow> bool" where
  "assocMatches modelID before m =
     (mwp_ModelID m = modelID \<and> mwp_Status m = Some True \<and>
      (if before_toolCall before then mwp_ToolCall m = Some True else True) \<and>
      (if before_structuredOutput before then mwp_StructuredOutput m = Some True else True) \<and>
      (if before_image before then mwp_Image m = Some True else True))"

definition buildModelWithProviderMap ::
  "ModelWithProvider list \<Rightarrow> (uint \<times> ModelWithProvider) list" where
  "buildModelWithProviderMap ms = fold (\<lambda>m acc. AList.update (mwp_ID m) m acc) ms []"

definition keyByID :: "Provider list \<Rightarrow> (uint \<times> Provider) list" where
  "keyByID ps = fold (\<lambda>pr acc. AList.update (prov_ID pr) pr acc) ps []"

definition buildWeightItems ::
  "(uint \<times> Provider) list \<Rightarrow> ModelWithProvider list \<Rightarrow> (uint \<times> int) list" where
  "buildWeightItems providerMap ms =
     fold (\<lambda>m acc. case map_of providerMap (mwp_ProviderID m) of
                      None \<Rightarrow> acc
                    | Some _ \<Rightarrow> AList.update (mwp_ID m) (mwp_Weight m) acc) ms []"

definition ProvidersWithMetaBymodelsName ::
  "DB \<Rightarrow> string \<Rightarrow> 'body Before \<Rightarrow> string + ProvidersWithMeta" where
  "ProvidersWithMetaBymodelsName db style before =
     (case db_firstModelErr db of
        Some err \<Rightarrow> Inl err
      | None \<Rightarrow>
        (case filter (\<lambda>m. model_Name m = before_Model before) (db_models db) of
           [] \<Rightarrow> (case db_saveChatLogErr db of
                    Some err \<Rightarrow> Inl err
                  | None \<Rightarrow> Inl (''not found model '' @ before_Model before))
         | model # _ \<Rightarrow>
           (case db_findAssocErr db of
              Some err \<Rightarrow> Inl err
            | None \<Rightarrow>
              (let modelWithProviders =
                     filter (assocMatches (model_ID model) before) (db_modelWithProviders db)
               in if length modelWithProviders = 0
                  then Inl (''not provider for model '' @ before_Model before)
                  else
                    (case db_findProviderErr db of
                       Some err \<Rightarrow> Inl err
                     | None \<Rightarrow>
                       (let providers =
                              filter (\<lambda>pr. prov_ID pr \<in> set (map mwp_ProviderID modelWithProviders)
                                           \<and> prov_Type pr = style) (db_providers db);
                            providerMap = keyByID providers
                        in Inr \<lparr>ModelWithProviderMap = buildModelWithProviderMap modelWithProviders,
                                WeightItems = buildWeightItems providerMap modelWithProviders,
                                ProviderMap = providerMap,
                                MaxRetry = model_MaxRetry model,
                                TimeOut = model_TimeOut model,
                                IOLog = (case model_IOLog model of None \<Rightarrow> False | Some b \<Rightarrow> b),
                                Strategy = model_Strategy model\<rparr>))))))"

section \<open>The cache-key builder (service, file of \<open>BuildCacheKey\<close>)\<close>

record Scope =
  AuthKeyID :: uint
  Style :: string
  scope_Model :: string
  Mode :: string
  scope_Stream :: bool

record Key =
  key_Scope :: Scope
  BodyHash :: string

text \<open>
  The value a request context holds under \<open>ContextKeyAuthKeyID\<close> is an \<open>interface{}\<close>:
  absent, a \<open>uint\<close>, or a value of some other dynamic type.
\<close>

datatype CtxValue = UintValue uint | OtherValue

record Context =
  ctx_AuthKeyID :: "CtxValue option"

text \<open>
  A request body as \<open>json.Unmarshal\<close> into a \<open>map[string]interface{}\<close> sees it: text
  that makes the call fail (not JSON, or JSON that is not an object), the literal
  \<open>null\<close> (no error, the map stays nil), or an object, given by its members in the order
  of the text. \<open>'v\<close> is the type of decoded member values.
\<close>

datatype 'v RawBody = Unparsable string | JsonNull | JsonObject "(string \<times> 'v) list"

text \<open>A later member with the same name replaces an earlier one.\<close>

definition jsonUnmarshal :: "'v RawBody \<Rightarrow> string + (string \<times> 'v) list" where
  "jsonUnmarshal body =
     (case body of
        Unparsable err \<Rightarrow> Inl err
      | JsonNull \<Rightarrow> Inr []
      | JsonObject members \<Rightarrow> Inr (fold (\<lambda>(k, v) acc. AList.update k v acc) members []))"

definition StyleOpenAI :: string where "StyleOpenAI = ''openai''"
definition StyleOpenAIRes :: string where "StyleOpenAIRes = ''openai-res''"
definition StyleAnthropic :: string where "StyleAnthropic = ''anthropic''"

definition semanticFields :: "string list" where
  "semanticFields =
     [''model'', ''messages'', ''input'', ''stream'',
      ''max_tokens'', ''max_tokens_to_sample'', ''max_completion_tokens'', ''n'', ''stop'',
      ''stop_sequences'',
      ''temperature'', ''top_p'', ''top_k'', ''seed'', ''presence_penalty'',
      ''frequency_penalty'',
      ''response_format'', ''tool_choice'', ''tool_choice_type'', ''tools'',
      ''function_call'', ''functions'',
      ''logprobs'', ''top_logprobs'', ''logit_bias'',
      ''system'', ''user'', ''metadata'', ''parallel_tool_calls'', ''reasoning_effort'',
      ''modalities'', ''audio'', ''vision'']"

text \<open>
  \<open>hashMapStably\<close>. The keys of \<open>data\<close> are collected (in the list's order, which stands
  for Go's unspecified iteration order), sorted, and a second map \<open>ordered\<close> is filled
  in that order; \<open>json.Marshal\<close> and SHA-256 with hex encoding are library functions,
  taken as parameters: \<open>marshal\<close> sees a Go map, that is, only which value each key has.
\<close>

definition hashMapStably ::
  "((string \<rightharpoonup> 'v) \<Rightarrow> string + string) \<Rightarrow> (string \<Rightarrow> string) \<Rightarrow> (string \<times> 'v) list \<Rightarrow>
   string + string" where
  "hashMapStably marshal sha256hex data =
     (let keys = sort (map fst data);
          ordered = fold (\<lambda>k acc. case map_of data k of
                                     None \<Rightarrow> acc
                                   | Some v \<Rightarrow> AList.update k v acc) keys []
      in case marshal (map_of ordered) of
           Inl err \<Rightarrow> Inl (''failed to marshal normalized data: '' @ err)
         | Inr jsonBytes \<Rightarrow> Inr (sha256hex jsonBytes))"

definition normalizeAndHashRequestBody ::
  "((string \<rightharpoonup> 'v) \<Rightarrow> string + string) \<Rightarrow> (string \<Rightarrow> string) \<Rightarrow> 'v RawBody \<Rightarrow>
   string + string" where
  "normalizeAndHashRequestBody marshal sha256hex rawBody =
     (case jsonUnmarshal rawBody of
        Inl err \<Rightarrow> Inl (''failed to unmarshal request body: '' @ err)
      | Inr raw \<Rightarrow>
          (let normalized = fold (\<lambda>field acc. case map_of raw field of
                                                 None \<Rightarrow> acc
                                               | Some v \<Rightarrow> AList.update field v acc)
                                 semanticFields []
           in hashMapStably marshal sha256hex normalized))"

definition determineMode :: "string \<Rightarrow> string" where
  "determineMode style =
     (if style = StyleOpenAI then ''chat_completions''
      else if style = StyleOpenAIRes then ''responses''
      else if style = StyleAnthropic then ''messages''
      else style)"

definition emptyKey :: Key where
  "emptyKey = \<lparr>key_Scope = \<lparr>AuthKeyID = 0, Style = [], scope_Model = [], Mode = [],
                              scope_Stream = False\<rparr>, BodyHash = []\<rparr>"

definition BuildCacheKey ::
  "((string \<rightharpoonup> 'v) \<Rightarrow> string + string) \<Rightarrow> (string \<Rightarrow> string) \<Rightarrow> Context \<Rightarrow> string \<Rightarrow>
   'v RawBody Before \<Rightarrow> Key \<times> bool" where
  "BuildCacheKey marshal sha256hex ctx style before =
     (if before_Stream before then (emptyKey, False)
      else case ctx_AuthKeyID ctx of
             None \<Rightarrow> (emptyKey, False)
           | Some OtherValue \<Rightarrow> (emptyKey, False)
           | Some (UintValue authKeyID) \<Rightarrow>
               (case normalizeAndHashRequestBody marshal sha256hex (before_raw before) of
                  Inl err \<Rightarrow> (emptyKey, False)
                | Inr bodyHash \<Rightarrow>
                    (\<lparr>key_Scope = \<lparr>AuthKeyID = authKeyID, Style = style,
                                    scope_Model = before_Model before,
                                    Mode = determineMode style,
                                    scope_Stream = before_Stream before\<rparr>,
                      BodyHash = bodyHash\<rparr>, True)))"

definition ValidateCacheKey :: "Key \<Rightarrow> string option" where
  "ValidateCacheKey key =
     (if AuthKeyID (key_Scope key) = 0 then Some ''AuthKeyID cannot be zero''
      else if Style (key_Scope key) = [] then Some ''Style cannot be empty''
      else if scope_Model (key_Scope key) = [] then Some ''Model cannot be empty''
      else if BodyHash key = [] then Some ''BodyHash cannot be empty''
      else None)"

section \<open>The response cache (\<open>package cache\<close>)\<close>

text \<open>
  A \<open>time.Time\<close> is a number of nanoseconds counted from Go's zero time, so \<open>IsZero\<close> is
  \<open>= 0\<close>; a \<open>time.Duration\<close> is a number of nanoseconds. Every operation that reads the
  clock takes the reading \<open>now\<close> as an argument. The \<open>Usage\<close> field of a value, an
  \<open>interface{}\<close> that the cache only copies, is left out.
\<close>

datatype ReadPolicy = ReadPolicyClone | ReadPolicyShareReadOnly

record Value =
  StatusCode :: int
  Header :: "(string \<times> string list) list"
  Body :: string
  CreatedAt :: int
  ExpiresAt :: int
  SourceLogID :: uint
  ProviderName :: string
  ProviderModel :: string
  Shared :: bool

record CacheStats =
  Entries :: int
  HitCount :: int
  MissCount :: int

record entry =
  entry_key :: Key
  entry_value :: Value

record MemoryCache =
  data :: "(string \<times> entry) list"
  maxEntries :: int
  readPolicy :: ReadPolicy
  shareThreshold :: int
  hitCount :: int
  missCount :: int

definition DefaultMaxEntries :: int where "DefaultMaxEntries = 1024"
definition DefaultTTL :: int where "DefaultTTL = 5 * 60 * 1000000000"

definition NewMemoryCacheWithOptions :: "int \<Rightarrow> ReadPolicy \<Rightarrow> int \<Rightarrow> MemoryCache" where
  "NewMemoryCacheWithOptions optMaxEntries optReadPolicy optShareThreshold =
     \<lparr>data = [],
      maxEntries = (if optMaxEntries \<le> 0 then DefaultMaxEntries else optMaxEntries),
      readPolicy = optReadPolicy,
      shareThreshold = optShareThreshold,
      hitCount = 0, missCount = 0\<rparr>"

definition NewMemoryCache :: "int \<Rightarrow> MemoryCache" where
  "NewMemoryCache n = NewMemoryCacheWithOptions n ReadPolicyClone 0"

fun showNat :: "nat \<Rightarrow> string" where
  "showNat n = (if n < 10 then [''0123456789'' ! n]
                else showNat (n div 10) @ [''0123456789'' ! (n mod 10)])"

declare showNat.simps [simp del]

definition showBool :: "bool \<Rightarrow> string" where
  "showBool b = (if b then ''true'' else ''false'')"

text \<open>\<open>fmt.Sprintf("%d|%s|%s|%s|%t|%s", ...)\<close>.\<close>

definition makeMapKey :: "Key \<Rightarrow> string" where
  "makeMapKey key =
     (let s = key_Scope key in
      showNat (AuthKeyID s) @ ''|'' @ Style s @ ''|'' @ scope_Model s @ ''|'' @ Mode s @ ''|'' @
      showBool (scope_Stream s) @ ''|'' @ BodyHash key)"

definition Clone :: "Value \<Rightarrow> Value" where
  "Clone v = v\<lparr>Shared := False\<rparr>"

definition isExpired :: "int \<Rightarrow> entry \<Rightarrow> bool" where
  "isExpired now e = (ExpiresAt (entry_value e) \<noteq> 0 \<and> now > ExpiresAt (entry_value e))"

text \<open>
  \<open>Get\<close>, with the entry read once under the read lock and, when it looks expired, read
  again under the write lock before it is deleted. The result is the value on a hit and
  \<open>None\<close> on a miss, with the cache after the call.
\<close>

definition Get :: "MemoryCache \<Rightarrow> int \<Rightarrow> Key \<Rightarrow> Value option \<times> MemoryCache" where
  "Get c now key =
     (let mapKey = makeMapKey key in
      case map_of (data c) mapKey of
        None \<Rightarrow> (None, c\<lparr>missCount := missCount c + 1\<rparr>)
      | Some e \<Rightarrow>
          if isExpired now e then
            (let c1 = (case map_of (data c) mapKey of
                         None \<Rightarrow> c
                       | Some e2 \<Rightarrow> if isExpired now e2
                                    then c\<lparr>data := AList.delete mapKey (data c)\<rparr> else c)
             in (None, c1\<lparr>missCount := missCount c1 + 1\<rparr>))
          else
            (let c1 = c\<lparr>hitCount := hitCount c + 1\<rparr>;
                 shareAllowed = (readPolicy c = ReadPolicyShareReadOnly);
                 bigEnough = (shareThreshold c \<le> 0 \<or>
                              int (length (Body (entry_value e))) \<ge> shareThreshold c)
             in if shareAllowed \<and> bigEnough
                then (Some ((entry_value e)\<lparr>Shared := True\<rparr>), c1)
                else (Some ((Clone (entry_value e))\<lparr>Shared := False\<rparr>), c1)))"

text \<open>
  \<open>evictOldestLocked\<close>: one pass over the map (in the list's order) keeps the key with
  the earliest \<open>CreatedAt\<close>; that key, unless it is the empty string, is deleted.
\<close>

definition evictOldestLocked :: "MemoryCache \<Rightarrow> MemoryCache" where
  "evictOldestLocked c =
     (let (oldestKey, oldestTime) =
            fold (\<lambda>(k, e) (oldestKey, oldestTime).
                    if oldestKey = [] \<or> CreatedAt (entry_value e) < oldestTime
                    then (k, CreatedAt (entry_value e)) else (oldestKey, oldestTime))
                 (data c) ([], 0)
      in if oldestKey \<noteq> [] then c\<lparr>data := AList.delete oldestKey (data c)\<rparr> else c)"

definition Set :: "MemoryCache \<Rightarrow> int \<Rightarrow> Key \<Rightarrow> Value option \<Rightarrow> int \<Rightarrow> string option \<times> MemoryCache" where
  "Set c now key valueOpt ttl =
     (case valueOpt of
        None \<Rightarrow> (Some ''cache value cannot be nil'', c)
      | Some v \<Rightarrow>
          (let v1 = (if CreatedAt v = 0 then v\<lparr>CreatedAt := now\<rparr> else v);
               ttl1 = (if ttl \<le> 0 then DefaultTTL else ttl);
               v2 = v1\<lparr>ExpiresAt := now + ttl1\<rparr>;
               mapKey = makeMapKey key;
               stored = Clone v2;
               c1 = (if maxEntries c > 0 \<and> int (length (data c)) \<ge> maxEntries c
                     then evictOldestLocked c else c)
           in (None, c1\<lparr>data := AList.update mapKey \<lparr>entry_key = key, entry_value = stored\<rparr>
                                                   (data c1)\<rparr>)))"

definition DeleteByAuthKey :: "MemoryCache \<Rightarrow> uint \<Rightarrow> MemoryCache" where
  "DeleteByAuthKey c authKeyID =
     c\<lparr>data := filter (\<lambda>(k, e). AuthKeyID (key_Scope (entry_key e)) \<noteq> authKeyID) (data c)\<rparr>"

definition DeleteByStyle :: "MemoryCache \<Rightarrow> string \<Rightarrow> MemoryCache" where
  "DeleteByStyle c style =
     c\<lparr>data := filter (\<lambda>(k, e). Style (key_Scope (entry_key e)) \<noteq> style) (data c)\<rparr>"

definition Stats :: "MemoryCache \<Rightarrow> CacheStats" where
  "Stats c = \<lparr>Entries = int (length (data c)), HitCount = hitCount c, MissCount = missCount c\<rparr>"

section \<open>The style processors (service, file of \<open>ProcesserOpenAI\<close>)\<close>

subsection \<open>Library functions and floating point\<close>

text \<open>
  A \<open>float64\<close> result keeps what matters about a quotient: a finite number (as a real,
  rounding left aside), an infinity, or NaN. \<open>float64Div\<close> is Go's \<open>/\<close> on two finite
  floats; a zero divisor here is always \<open>+0\<close>.
\<close>

datatype Float64 = Finite real | PosInf | NegInf | NaN

definition float64Div :: "real \<Rightarrow> real \<Rightarrow> Float64" where
  "float64Div x y =
     (if y = 0 then (if x = 0 then NaN else if x > 0 then PosInf else NegInf)
      else Finite (x / y))"

text \<open>\<open>Duration.Seconds()\<close> of a duration in nanoseconds.\<close>

definition Seconds :: "int \<Rightarrow> real" where
  "Seconds d = real_of_int d / 1000000000"

record Usage =
  PromptTokens :: int
  CompletionTokens :: int
  TotalTokens :: int
  CachedTokens :: int
  AudioTokens :: int

record OpenAIResUsage =
  res_InputTokens :: int
  res_OutputTokens :: int
  res_TotalTokens :: int
  res_CachedTokens :: int

record AnthropicUsage =
  ant_InputTokens :: int
  ant_CacheCreationInputTokens :: int
  ant_CacheReadInputTokens :: int
  ant_OutputTokens :: int
  ant_ServiceTier :: string

text \<open>
  What \<open>gjson.Get\<close> returns, as far as the processors look at it, and the JSON library
  functions the processors call, taken as parameters together with \<open>ClassifyStatus\<close>
  of the cooldown package.
\<close>

record GResult =
  g_Exists :: bool
  g_String :: string
  g_Int :: int
  g_Raw :: string

record JsonLib =
  gjsonGet :: "string \<Rightarrow> string \<Rightarrow> GResult"
  jsonValid :: "string \<Rightarrow> bool"
  unmarshalUsage :: "string \<Rightarrow> string + Usage"
  unmarshalOpenAIResUsage :: "string \<Rightarrow> string + OpenAIResUsage"
  unmarshalAnthropicUsage :: "string \<Rightarrow> AnthropicUsage \<Rightarrow> AnthropicUsage"
  lib_ClassifyStatus :: "int \<Rightarrow> Category"

text \<open>\<open>Result.Get\<close> looks the path up in the result's raw text.\<close>

definition resultGet :: "JsonLib \<Rightarrow> GResult \<Rightarrow> string \<Rightarrow> GResult" where
  "resultGet lib r path = gjsonGet lib (g_Raw r) path"

definition HasPrefix :: "string \<Rightarrow> string \<Rightarrow> bool" where
  "HasPrefix s pre = (take (length pre) s = pre)"

definition TrimPrefix :: "string \<Rightarrow> string \<Rightarrow> string" where
  "TrimPrefix s pre = (if HasPrefix s pre then drop (length pre) s else s)"

definition CutPrefix :: "string \<Rightarrow> string \<Rightarrow> string \<times> bool" where
  "CutPrefix s pre = (if HasPrefix s pre then (drop (length pre) s, True) else (s, False))"

subsection \<open>In-band stream errors\<close>

record StreamError =
  se_Message :: string
  se_Type :: string
  se_Code :: string
  se_Status :: int
  se_Category :: Category

definition resolveCategory :: "JsonLib \<Rightarrow> StreamError \<Rightarrow> StreamError" where
  "resolveCategory lib e =
     (if se_Status e \<noteq> 0 then e\<lparr>se_Category := lib_ClassifyStatus lib (se_Status e)\<rparr>
      else if se_Code e = ''insufficient_quota'' \<or> se_Code e = ''invalid_api_key'' \<or>
              se_Code e = ''rate_limit_exceeded'' \<or> se_Code e = ''billing_hard_limit_reached'' \<or>
              se_Code e = ''quota_exceeded'' \<or> se_Code e = ''authentication_error''
           then e\<lparr>se_Category := CategoryKey\<rparr>
      else if HasPrefix (se_Type e) ''server_error'' \<or> se_Type e = ''overloaded_error''
           then e\<lparr>se_Category := CategoryProvider\<rparr>
      else if se_Type e = ''invalid_request_error'' then e\<lparr>se_Category := CategoryClient\<rparr>
      else e\<lparr>se_Category := CategoryProvider\<rparr>)"

definition parseStreamError :: "JsonLib \<Rightarrow> string \<Rightarrow> StreamError option" where
  "parseStreamError lib chunk =
     (let errStr = gjsonGet lib chunk ''error'' in
      if \<not> g_Exists errStr then None
      else
        (let streamErr = \<lparr>se_Message = g_String (resultGet lib errStr ''message''),
                          se_Type = g_String (resultGet lib errStr ''type''),
                          se_Code = g_String (resultGet lib errStr ''code''),
                          se_Status = g_Int (resultGet lib errStr ''status''),
                          se_Category = CategoryNone\<rparr>;
             streamErr1 = (if se_Message streamErr = []
                           then streamErr\<lparr>se_Message := g_String errStr\<rparr> else streamErr)
         in Some (resolveCategory lib streamErr1)))"

datatype ProcError = ErrStream StreamError | ErrContext string | ErrScanner string | ErrJson string

subsection \<open>The line scanner\<close>

definition InitScannerBufferSize :: nat where "InitScannerBufferSize = 1024 * 8"
definition MaxScannerBufferSize :: nat where "MaxScannerBufferSize = 1024 * 1024 * 64"

text \<open>
  \<open>bufio.ScanLines\<close> over the whole body (the reader is taken to deliver the body and
  then end): the body is cut at every newline; text after the last newline is a line of
  its own unless it is empty.
\<close>

fun splitLines :: "string \<Rightarrow> string \<Rightarrow> string list" where
  "splitLines cur [] = (if cur = [] then [] else [cur])"
| "splitLines cur (c # cs) =
     (if c = CHR 0x0A then cur # splitLines [] cs else splitLines (cur @ [c]) cs)"

definition dropCR :: "string \<Rightarrow> string" where
  "dropCR l = (if l \<noteq> [] \<and> last l = CHR 0x0D then butlast l else l)"

text \<open>
  \<open>ScannerToken\<close>: the non-empty lines, each with its length, up to the first line that
  does not fit the scanner's buffer; from there on \<open>Scan\<close> is false and \<open>scanner.Err()\<close>
  is the error.
\<close>

fun ScannerToken :: "nat \<Rightarrow> string list \<Rightarrow> (string \<times> nat) list \<times> string option" where
  "ScannerToken maxSize [] = ([], None)"
| "ScannerToken maxSize (l # ls) =
     (if length l \<ge> maxSize then ([], Some ''bufio.Scanner: token too long'')
      else (let chunk = dropCR l; (rest, err) = ScannerToken maxSize ls in
            if chunk = [] then (rest, err) else ((chunk, length chunk) # rest, err)))"

subsection \<open>The three processors\<close>

record OutputUnion =
  OfString :: string
  OfStringArray :: "string list"

record ChatLog =
  FirstChunkTime :: int
  ChunkTime :: int
  log_Usage :: Usage
  Tps :: Float64
  Size :: nat

record ProcState =
  st_usageStr :: string
  st_output :: OutputUnion
  st_size :: nat
  st_event :: string
  st_athropicUsage :: AnthropicUsage

definition zeroUsage :: Usage where
  "zeroUsage = \<lparr>PromptTokens = 0, CompletionTokens = 0, TotalTokens = 0, CachedTokens = 0,
                AudioTokens = 0\<rparr>"

definition zeroOpenAIResUsage :: OpenAIResUsage where
  "zeroOpenAIResUsage = \<lparr>res_InputTokens = 0, res_OutputTokens = 0, res_TotalTokens = 0,
                         res_CachedTokens = 0\<rparr>"

definition zeroAnthropicUsage :: AnthropicUsage where
  "zeroAnthropicUsage = \<lparr>ant_InputTokens = 0, ant_CacheCreationInputTokens = 0,
                         ant_CacheReadInputTokens = 0, ant_OutputTokens = 0,
                         ant_ServiceTier = []\<rparr>"

definition initProcState :: ProcState where
  "initProcState = \<lparr>st_usageStr = [], st_output = \<lparr>OfString = [], OfStringArray = []\<rparr>, st_size = 0,
                    st_event = [], st_athropicUsage = zeroAnthropicUsage\<rparr>"

definition appendOutput :: "string \<Rightarrow> ProcState \<Rightarrow> ProcState" where
  "appendOutput chunk st =
     st\<lparr>st_output := (st_output st)\<lparr>OfStringArray := OfStringArray (st_output st) @ [chunk]\<rparr>\<rparr>"

definition setOfString :: "string \<Rightarrow> ProcState \<Rightarrow> ProcState" where
  "setOfString chunk st = st\<lparr>st_output := (st_output st)\<lparr>OfString := chunk\<rparr>\<rparr>"

text \<open>
  The loop over the tokens. \<open>cancelAt\<close> is the pass at which \<open>ctx.Done()\<close> is first
  seen closed, if any. The loop ends with an error, or with the state and whether it
  ended by \<open>break\<close> (\<open>True\<close>) or because the scanner had no more tokens (\<open>False\<close>).
\<close>

fun openAILoop ::
  "JsonLib \<Rightarrow> bool \<Rightarrow> nat option \<Rightarrow> nat \<Rightarrow> (string \<times> nat) list \<Rightarrow> ProcState \<Rightarrow>
   ProcError + (ProcState \<times> bool)" where
  "openAILoop lib stream cancelAt i [] st = Inr (st, False)"
| "openAILoop lib stream cancelAt i ((chunk, chunkSize) # rest) st =
     (if cancelAt = Some i then Inl (ErrContext ''context canceled'')
      else
        (let st1 = st\<lparr>st_size := st_size st + chunkSize\<rparr> in
         if \<not> stream then
           Inr ((setOfString chunk st1)\<lparr>st_usageStr := g_String (gjsonGet lib chunk ''usage'')\<rparr>, True)
         else
           (let chunk1 = TrimPrefix chunk ''data: '' in
            if chunk1 = ''[DONE]'' then Inr (st1, True)
            else case parseStreamError lib chunk1 of
                   Some err \<Rightarrow> Inl (ErrStream err)
                 | None \<Rightarrow>
                     (let st2 = appendOutput chunk1 st1;
                          usage = gjsonGet lib chunk1 ''usage'';
                          st3 = (if g_Exists usage \<and> g_Int (resultGet lib usage ''total_tokens'') \<noteq> 0
                                 then st2\<lparr>st_usageStr := g_String usage\<rparr> else st2)
                      in openAILoop lib stream cancelAt (i + 1) rest st3))))"

fun openAIResLoop ::
  "JsonLib \<Rightarrow> bool \<Rightarrow> nat option \<Rightarrow> nat \<Rightarrow> (string \<times> nat) list \<Rightarrow> ProcState \<Rightarrow>
   ProcError + (ProcState \<times> bool)" where
  "openAIResLoop lib stream cancelAt i [] st = Inr (st, False)"
| "openAIResLoop lib stream cancelAt i ((chunk, chunkSize) # rest) st =
     (if cancelAt = Some i then Inl (ErrContext ''context canceled'')
      else
        (let st1 = st\<lparr>st_size := st_size st + chunkSize\<rparr> in
         if \<not> stream then
           Inr ((setOfString chunk st1)\<lparr>st_usageStr := g_String (gjsonGet lib chunk ''usage'')\<rparr>, True)
         else
           (case CutPrefix chunk ''event: '' of
              (after, True) \<Rightarrow> openAIResLoop lib stream cancelAt (i + 1) rest (st1\<lparr>st_event := after\<rparr>)
            | (_, False) \<Rightarrow>
                (let content = TrimPrefix chunk ''data: '' in
                 if content = [] then openAIResLoop lib stream cancelAt (i + 1) rest st1
                 else case parseStreamError lib content of
                        Some err \<Rightarrow> Inl (ErrStream err)
                      | None \<Rightarrow>
                          (let st2 = appendOutput content st1;
                               st3 = (if st_event st2 = ''response.completed''
                                      then st2\<lparr>st_usageStr :=
                                                 g_String (gjsonGet lib content ''response.usage'')\<rparr>
                                      else st2)
                           in openAIResLoop lib stream cancelAt (i + 1) rest st3)))))"

definition mergeAnthropicUsage :: "JsonLib \<Rightarrow> AnthropicUsage \<Rightarrow> GResult \<Rightarrow> AnthropicUsage" where
  "mergeAnthropicUsage lib target source =
     (let v1 = g_Int (resultGet lib source ''input_tokens'');
          t1 = (if v1 > 0 then target\<lparr>ant_InputTokens := ant_InputTokens target + v1\<rparr>
                else target);
          v2 = g_Int (resultGet lib source ''cache_creation_input_tokens'');
          t2 = (if v2 > 0
                then t1\<lparr>ant_CacheCreationInputTokens := ant_CacheCreationInputTokens t1 + v2\<rparr>
                else t1);
          v3 = g_Int (resultGet lib source ''cache_read_input_tokens'');
          t3 = (if v3 > 0 then t2\<lparr>ant_CacheReadInputTokens := ant_CacheReadInputTokens t2 + v3\<rparr>
                else t2);
          v4 = g_Int (resultGet lib source ''output_tokens'')
      in if v4 > 0 then t3\<lparr>ant_OutputTokens := ant_OutputTokens t3 + v4\<rparr> else t3)"

fun anthropicLoop ::
  "JsonLib \<Rightarrow> bool \<Rightarrow> nat option \<Rightarrow> nat \<Rightarrow> (string \<times> nat) list \<Rightarrow> ProcState \<Rightarrow>
   ProcError + (ProcState \<times> bool)" where
  "anthropicLoop lib stream cancelAt i [] st = Inr (st, False)"
| "anthropicLoop lib stream cancelAt i ((chunk, chunkSize) # rest) st =
     (if cancelAt = Some i then Inl (ErrContext ''context canceled'')
      else
        (let st1 = st\<lparr>st_size := st_size st + chunkSize\<rparr> in
         if \<not> stream then
           (let st2 = setOfString chunk st1;
                usageStr1 = g_String (gjsonGet lib chunk ''usage'')
            in Inr (if usageStr1 \<noteq> [] \<and> jsonValid lib usageStr1
                    then st2\<lparr>st_athropicUsage := unmarshalAnthropicUsage lib usageStr1 (st_athropicUsage st2)\<rparr>
                    else st2, True))
         else
           (case CutPrefix chunk ''event: '' of
              (_, True) \<Rightarrow> anthropicLoop lib stream cancelAt (i + 1) rest st1
            | (_, False) \<Rightarrow>
                (case CutPrefix chunk ''data: '' of
                   (_, False) \<Rightarrow> anthropicLoop lib stream cancelAt (i + 1) rest st1
                 | (after, True) \<Rightarrow>
                     (case parseStreamError lib after of
                        Some err \<Rightarrow> Inl (ErrStream err)
                      | None \<Rightarrow>
                          (let st2 = appendOutput after st1;
                               topUsage = gjsonGet lib after ''usage'';
                               st3 = (if g_Exists topUsage
                                      then st2\<lparr>st_athropicUsage :=
                                                 mergeAnthropicUsage lib (st_athropicUsage st2) topUsage\<rparr>
                                      else st2);
                               msgUsage = gjsonGet lib after ''message.usage'';
                               st4 = (if g_Exists msgUsage
                                      then st3\<lparr>st_athropicUsage :=
                                                 mergeAnthropicUsage lib (st_athropicUsage st3) msgUsage\<rparr>
                                      else st3)
                           in anthropicLoop lib stream cancelAt (i + 1) rest st4))))))"

text \<open>
  A processor reads the clock twice: \<open>sinceFirst\<close> is \<open>time.Since(start)\<close> at the first
  token, \<open>sinceEnd\<close> is \<open>time.Since(start)\<close> after the loop. After a \<open>break\<close> the scanner
  has met no error; otherwise \<open>scanner.Err()\<close> is what the scan ended with.
\<close>

definition ProcesserOpenAI ::
  "JsonLib \<Rightarrow> nat option \<Rightarrow> string \<Rightarrow> bool \<Rightarrow> int \<Rightarrow> int \<Rightarrow> ProcError + (ChatLog \<times> OutputUnion)" where
  "ProcesserOpenAI lib cancelAt body stream sinceFirst sinceEnd =
     (let (tokens, scanErr) = ScannerToken MaxScannerBufferSize (splitLines [] body) in
      case openAILoop lib stream cancelAt 0 tokens initProcState of
        Inl err \<Rightarrow> Inl err
      | Inr (st, broke) \<Rightarrow>
          (case (if broke then None else scanErr) of
             Some err \<Rightarrow> Inl (ErrScanner err)
           | None \<Rightarrow>
               (let firstChunkTime = (if tokens = [] then 0 else sinceFirst) in
                case (if jsonValid lib (st_usageStr st) then unmarshalUsage lib (st_usageStr st)
                      else Inr zeroUsage) of
                  Inl err \<Rightarrow> Inl (ErrJson err)
                | Inr openaiUsage \<Rightarrow>
                    (let chunkTime = sinceEnd - firstChunkTime in
                     Inr (\<lparr>FirstChunkTime = firstChunkTime,
                           ChunkTime = chunkTime,
                           log_Usage = openaiUsage,
                           Tps = float64Div (real_of_int (TotalTokens openaiUsage))
                                            (Seconds chunkTime),
                           Size = st_size st\<rparr>, st_output st)))))"

definition ProcesserOpenAiRes ::
  "JsonLib \<Rightarrow> nat option \<Rightarrow> string \<Rightarrow> bool \<Rightarrow> int \<Rightarrow> int \<Rightarrow> ProcError + (ChatLog \<times> OutputUnion)" where
  "ProcesserOpenAiRes lib cancelAt body stream sinceFirst sinceEnd =
     (let (tokens, scanErr) = ScannerToken MaxScannerBufferSize (splitLines [] body) in
      case openAIResLoop lib stream cancelAt 0 tokens initProcState of
        Inl err \<Rightarrow> Inl err
      | Inr (st, broke) \<Rightarrow>
          (case (if broke then None else scanErr) of
             Some err \<Rightarrow> Inl (ErrScanner err)
           | None \<Rightarrow>
               (let firstChunkTime = (if tokens = [] then 0 else sinceFirst) in
                case (if jsonValid lib (st_usageStr st) then unmarshalOpenAIResUsage lib (st_usageStr st)
                      else Inr zeroOpenAIResUsage) of
                  Inl err \<Rightarrow> Inl (ErrJson err)
                | Inr openAIResUsage \<Rightarrow>
                    (let chunkTime = sinceEnd - firstChunkTime in
                     Inr (\<lparr>FirstChunkTime = firstChunkTime,
                           ChunkTime = chunkTime,
                           log_Usage = \<lparr>PromptTokens = res_InputTokens openAIResUsage,
                                        CompletionTokens = res_OutputTokens openAIResUsage,
                                        TotalTokens = res_TotalTokens openAIResUsage,
                                        CachedTokens = res_CachedTokens openAIResUsage,
                                        AudioTokens = 0\<rparr>,
                           Tps = float64Div (real_of_int (res_TotalTokens openAIResUsage))
                                            (Seconds chunkTime),
                           Size = st_size st\<rparr>, st_output st)))))"

definition ProcesserAnthropic ::
  "JsonLib \<Rightarrow> nat option \<Rightarrow> string \<Rightarrow> bool \<Rightarrow> int \<Rightarrow> int \<Rightarrow> ProcError + (ChatLog \<times> OutputUnion)" where
  "ProcesserAnthropic lib cancelAt body stream sinceFirst sinceEnd =
     (let (tokens, scanErr) = ScannerToken MaxScannerBufferSize (splitLines [] body) in
      case anthropicLoop lib stream cancelAt 0 tokens initProcState of
        Inl err \<Rightarrow> Inl err
      | Inr (st, broke) \<Rightarrow>
          (case (if broke then None else scanErr) of
             Some err \<Rightarrow> Inl (ErrScanner err)
           | None \<Rightarrow>
               (let firstChunkTime = (if tokens = [] then 0 else sinceFirst);
                    chunkTime = sinceEnd - firstChunkTime;
                    totalTokens = ant_InputTokens (st_athropicUsage st) +
                                  ant_OutputTokens (st_athropicUsage st);
                    tps = (if Seconds chunkTime > 0
                           then float64Div (real_of_int totalTokens) (Seconds chunkTime)
                           else Finite 0)
                in Inr (\<lparr>FirstChunkTime = firstChunkTime,
                         ChunkTime = chunkTime,
                         log_Usage = \<lparr>PromptTokens = ant_InputTokens (st_athropicUsage st),
                                      CompletionTokens = ant_OutputTokens (st_athropicUsage st),
                                      TotalTokens = totalTokens,
                                      CachedTokens = ant_CacheReadInputTokens (st_athropicUsage st),
                                      AudioTokens = 0\<rparr>,
                         Tps = tps,
                         Size = st_size st\<rparr>, st_output st))))"

section \<open>Notions used in the statements\<close>


text \<open>The ids of the providers whose type is the request's style.\<close>

definition styleProviderIDs :: "DB \<Rightarrow> string \<Rightarrow> uint set" where
  "styleProviderIDs db style =
     {prov_ID pr | pr. pr \<in> set (db_providers db) \<and> prov_Type pr = style}"

text \<open>
  \<open>hits c now mapKey\<close>: a \<open>Get\<close> at time \<open>now\<close> for a key with this map key reports a
  hit. \<open>observable c now\<close> lists the stored map keys for which it does.
\<close>

definition hits :: "MemoryCache \<Rightarrow> int \<Rightarrow> string \<Rightarrow> bool" where
  "hits c now mapKey =
     (case map_of (data c) mapKey of None \<Rightarrow> False | Some e \<Rightarrow> \<not> isExpired now e)"

definition observable :: "MemoryCache \<Rightarrow> int \<Rightarrow> string list" where
  "observable c now = filter (hits c now) (map fst (data c))"

section \<open>Concrete inputs\<close>

text \<open>
  Modelled from the spec: \<open>cooldown.ClassifyStatus\<close> (package \<open>service/cooldown\<close>), by
  the status table of the dispatcher: 401, 403 and 429 are \<open>key\<close>; 400, 404 and 422 are
  \<open>client\<close>; every other status is \<open>provider\<close>. It is only used as the classifier of
  the concrete runs below; the theorems about the dispatcher hold for every classifier.
\<close>

definition ClassifyStatusSpec :: "int \<Rightarrow> Category" where
  "ClassifyStatusSpec status =
     (if status = 401 \<or> status = 403 \<or> status = 429 then CategoryKey
      else if status = 400 \<or> status = 404 \<or> status = 422 then CategoryClient
      else CategoryProvider)"

definition exAssoc :: "uint \<Rightarrow> uint \<Rightarrow> ModelWithProvider" where
  "exAssoc i pid =
     \<lparr>mwp_ID = i, mwp_ModelID = 1, mwp_ProviderModel = ''gpt-4o'', mwp_ProviderID = pid,
      mwp_ToolCall = Some True, mwp_StructuredOutput = Some True, mwp_Image = Some False,
      mwp_WithHeader = None, mwp_Status = Some True, mwp_Weight = 1\<rparr>"

definition exProvider :: "uint \<Rightarrow> string \<Rightarrow> Provider" where
  "exProvider i ty = \<lparr>prov_ID = i, prov_Name = ''upstream'', prov_Type = ty, prov_Config = ''{}''\<rparr>"

text \<open>Two associations of one model, each with a provider of its own.\<close>

definition exMeta :: "int \<Rightarrow> ProvidersWithMeta" where
  "exMeta maxRetry =
     \<lparr>ModelWithProviderMap = [(1, exAssoc 1 1), (2, exAssoc 2 2)],
      WeightItems = [(1, 1), (2, 1)],
      ProviderMap = [(1, exProvider 1 ''openai''), (2, exProvider 2 ''openai'')],
      MaxRetry = maxRetry, TimeOut = 60, IOLog = False, Strategy = ''consistent_hash''\<rparr>"

text \<open>
  A pass in which association \<open>ident\<close> is popped, is not in cooldown, key 7 is drawn and
  the upstream answers with \<open>status\<close>; and a pass in which the popped association is in
  cooldown.
\<close>

definition envStatus :: "uint \<Rightarrow> int \<Rightarrow> AttemptEnv" where
  "envStatus ident status =
     \<lparr>env_select = SelectDefault, env_pop = Inr ident, env_inCooldown = False,
      env_providersNew = None, env_keyPick = Some 7, env_buildReq = None,
      env_clientDo = Inr status, env_saveChatLog = Inr 41\<rparr>"

definition envCooldown :: "uint \<Rightarrow> AttemptEnv" where
  "envCooldown ident = (envStatus ident 200)\<lparr>env_inCooldown := True\<rparr>"

definition exState :: DState where
  "exState = \<lparr>retry = 0, cooldownSkipped = 0, actions = []\<rparr>"

definition exModel :: Model where
  "exModel = \<lparr>model_ID = 1, model_Name = ''m1'', model_MaxRetry = 3, model_TimeOut = 60,
              model_IOLog = None, model_Strategy = ''lottery''\<rparr>"

text \<open>
  A store with the model \<open>m1\<close>, its two enabled associations, and their providers: one of
  type \<open>openai\<close>, one of type \<open>anthropic\<close>, none of type \<open>openai-res\<close>.
\<close>

definition exDB :: DB where
  "exDB = \<lparr>db_models = [exModel],
           db_modelWithProviders = [exAssoc 1 1, exAssoc 2 2],
           db_providers = [exProvider 1 ''openai'', exProvider 2 ''anthropic''],
           db_firstModelErr = None, db_findAssocErr = None, db_findProviderErr = None,
           db_saveChatLogErr = None\<rparr>"

definition exBefore :: "'b \<Rightarrow> 'b Before" where
  "exBefore body = \<lparr>before_Model = ''m1'', before_Stream = False, before_toolCall = True,
                     before_structuredOutput = False, before_image = False, before_raw = body\<rparr>"

text \<open>
  Stand-ins for \<open>json.Marshal\<close> on a map and for SHA-256 with hex encoding, on bodies
  whose member values are written as text. The theorems about the body hash hold for
  every choice of the two functions.
\<close>

definition exMarshal :: "(string \<rightharpoonup> string) \<Rightarrow> string + string" where
  "exMarshal m =
     Inr (''{'' @ concat (map (\<lambda>k. case m k of None \<Rightarrow> [] | Some v \<Rightarrow> k @ '':'' @ v @ '','')
                             semanticFields) @ ''}'')"

definition exDigest :: "string \<Rightarrow> string" where
  "exDigest bytes = ''sha256:'' @ bytes"

definition exBody :: "string RawBody" where
  "exBody = JsonObject [(''model'', ''m1''), (''temperature'', ''0.2''),
                        (''user_id_opaque'', ''abc'')]"

definition exKey :: Key where
  "exKey = \<lparr>key_Scope = \<lparr>AuthKeyID = 7, Style = ''openai'', scope_Model = ''m1'',
                          Mode = ''chat_completions'', scope_Stream = False\<rparr>,
            BodyHash = ''abc123''\<rparr>"

definition exValue :: Value where
  "exValue = \<lparr>StatusCode = 200, Header = [(''Content-Type'', [''application/json''])],
              Body = ''{}'', CreatedAt = 0, ExpiresAt = 0, SourceLogID = 41,
              ProviderName = ''upstream'', ProviderModel = ''m1'', Shared = False\<rparr>"

text \<open>
  The cache after one \<open>Set\<close> at time 1000 with a TTL of five minutes: the entry expires
  at 300000001000.
\<close>

definition exCache :: MemoryCache where
  "exCache = snd (Set (NewMemoryCache 1024) 1000 exKey (Some exValue) DefaultTTL)"

text \<open>
  Two response bodies with the same content, on one line and on four lines, and what the
  JSON library functions answer on the texts that occur when they are processed.
\<close>

definition exUsageText :: string where
  \<open>exUsageText = ''{"total_tokens":100}''\<close>

definition exBodyOneLine :: string where
  \<open>exBodyOneLine = ''{"id":"r1","usage":{"total_tokens":100}}''\<close>

definition exBodyMultiLine :: string where
  \<open>exBodyMultiLine =
     ''{'' @ [CHR 0x0A] @ ''  "id":"r1",'' @ [CHR 0x0A] @
     ''  "usage":{"total_tokens":100}'' @ [CHR 0x0A] @ ''}''\<close>

definition notFound :: GResult where
  "notFound = \<lparr>g_Exists = False, g_String = [], g_Int = 0, g_Raw = []\<rparr>"

definition exLib :: JsonLib where
  "exLib =
     \<lparr>gjsonGet = (\<lambda>json path.
        if path = ''usage'' \<and> (json = exBodyOneLine \<or> json = exBodyMultiLine)
        then \<lparr>g_Exists = True, g_String = exUsageText, g_Int = 0, g_Raw = exUsageText\<rparr>
        else notFound),
      jsonValid = (\<lambda>s. s = exUsageText),
      unmarshalUsage = (\<lambda>s. if s = exUsageText then Inr (zeroUsage\<lparr>TotalTokens := 100\<rparr>)
                             else Inl ''unexpected end of JSON input''),
      unmarshalOpenAIResUsage =
        (\<lambda>s. if s = exUsageText then Inr (zeroOpenAIResUsage\<lparr>res_TotalTokens := 100\<rparr>)
              else Inl ''unexpected end of JSON input''),
      unmarshalAnthropicUsage = (\<lambda>s u. u),
      lib_ClassifyStatus = ClassifyStatusSpec\<rparr>"

lemmas ex_defs = exMeta_def exAssoc_def exProvider_def envStatus_def envCooldown_def exState_def
  ClassifyStatusSpec_def

lemmas run_defs = BalanceChat_def clampRetries_def countActiveProviders_def attempt_def
  sendAttempt_def onBadStatus_def onErrorFeedback_def emit_def http_calls_def newBalancer_def
  BalancerSmoothWeightedRR_def BalancerRotor_def BalancerLottery_def Let_def

lemmas query_defs = ProvidersWithMetaBymodelsName_def assocMatches_def keyByID_def
  buildWeightItems_def buildModelWithProviderMap_def styleProviderIDs_def exDB_def exModel_def
  exAssoc_def exProvider_def exBefore_def Let_def

lemmas key_defs = BuildCacheKey_def normalizeAndHashRequestBody_def hashMapStably_def
  jsonUnmarshal_def semanticFields_def determineMode_def StyleOpenAI_def StyleOpenAIRes_def
  StyleAnthropic_def emptyKey_def ValidateCacheKey_def exMarshal_def exDigest_def exBefore_def
  exBody_def Let_def

lemmas cache_defs = exKey_def exValue_def exCache_def Set_def Get_def Stats_def NewMemoryCache_def
  NewMemoryCacheWithOptions_def DefaultMaxEntries_def DefaultTTL_def makeMapKey_def Clone_def
  isExpired_def showBool_def hits_def observable_def showNat.simps Let_def

lemmas proc_defs = ProcesserOpenAI_def ProcesserOpenAiRes_def ProcesserAnthropic_def
  MaxScannerBufferSize_def dropCR_def setOfString_def initProcState_def zeroUsage_def
  zeroOpenAIResUsage_def zeroAnthropicUsage_def float64Div_def Seconds_def
  exUsageText_def exBodyOneLine_def exBodyMultiLine_def notFound_def exLib_def Let_def

section \<open>The retry loop: bounds on upstream calls\<close>

lemma http_calls_emit:
  "http_calls (emit as s) =
   http_calls s + length (filter (\<lambda>a. case a of ClientDo _ \<Rightarrow> True | _ \<Rightarrow> False) as)"
  by (simp add: http_calls_def emit_def)

lemma retry_emit [simp]: "retry (emit as s) = retry s"
  by (simp add: emit_def)

lemma cooldownSkipped_emit [simp]: "cooldownSkipped (emit as s) = cooldownSkipped s"
  by (simp add: emit_def)

lemma http_calls_upd [simp]:
  "http_calls (s\<lparr>retry := r\<rparr>) = http_calls s"
  "http_calls (s\<lparr>cooldownSkipped := k\<rparr>) = http_calls s"
  by (simp_all add: http_calls_def)

lemma onErrorFeedback_no_call:
  "filter (\<lambda>a. case a of ClientDo _ \<Rightarrow> True | _ \<Rightarrow> False) (onErrorFeedback m k c) = []"
  by (simp add: onErrorFeedback_def)

lemma sendAttempt_step:
  assumes "sendAttempt cl p e ident m s = (r, s')"
  shows "retry s' = retry s \<and>
         (http_calls s' = http_calls s \<or> http_calls s' = http_calls s + 1)"
  using assms
  by (auto simp: sendAttempt_def onBadStatus_def Let_def http_calls_emit onErrorFeedback_no_call
      split: option.splits sum.splits if_splits)

text \<open>A pass makes at most one upstream call, and a pass that makes one consumes a retry.\<close>

lemma attempt_step:
  assumes "attempt cl p ap e s = (r, s')"
  shows "http_calls s' = http_calls s \<or>
         (http_calls s' = http_calls s + 1 \<and> retry s' = retry s + 1)"
  using assms
  by (auto simp: attempt_def Let_def http_calls_emit
      split: SelectCase.splits option.splits sum.splits if_splits dest!: sendAttempt_step)

lemma attempt_calls:
  assumes "attempt cl p ap e s = (r, s')"
  shows "int (http_calls s') - retry s' \<le> int (http_calls s) - retry s \<and>
         retry s \<le> retry s' \<and> retry s' \<le> retry s + 1"
  using assms
  by (auto simp: attempt_def Let_def http_calls_emit
      split: SelectCase.splits option.splits sum.splits if_splits dest!: sendAttempt_step)

text \<open>The invariant of the loop: calls made \<open>\<le>\<close> retries consumed \<open>\<le>\<close> the bound.\<close>

lemma retryLoop_bound:
  assumes "retryLoop cl p retries ap envs s = (r, s')"
    and "retry s \<le> retries" and "int (http_calls s) \<le> retry s"
  shows "int (http_calls s') \<le> retry s' \<and> retry s' \<le> retries"
  using assms
proof (induction envs arbitrary: s)
  case Nil
  then show ?case by (auto split: if_splits)
next
  case (Cons e es)
  show ?case
  proof (cases "retry s < retries")
    case False
    with Cons.prems show ?thesis by auto
  next
    case True
    obtain r1 s1 where a: "attempt cl p ap e s = (r1, s1)"
      by (cases "attempt cl p ap e s")
    from attempt_calls[OF a] True Cons.prems
    have b: "retry s1 \<le> retries" "int (http_calls s1) \<le> retry s1" by auto
    show ?thesis
    proof (cases r1)
      case None
      with a True Cons.prems have "retryLoop cl p retries ap es s1 = (r, s')" by simp
      from Cons.IH[OF this b] show ?thesis .
    next
      case (Some x)
      with a True Cons.prems have "s' = s1" by simp
      with b show ?thesis by simp
    qed
  qed
qed

lemma retryLoop_done:
  "retries \<le> retry s \<Longrightarrow>
   retryLoop cl p retries ap envs s = (Some (Failure ''maximum retry attempts reached''), s)"
  by (cases envs) auto

text \<open>
  Claim C1. For every dispatch through \<open>BalanceChat\<close>, whatever the collaborators answer
  and however long the loop runs, the number of upstream HTTP calls is at most
  \<open>max(MaxRetry, 1)\<close>: the retry bound is \<open>MaxRetry\<close> clamped to at least 1; a pass of
  the loop makes at most one call, and a pass that makes a call consumes exactly one
  retry; the calls made never exceed the retries consumed, which never exceed the bound;
  and once the retry count has reached the bound the loop ends, with
  \<open>maximum retry attempts reached\<close>. (With a negative \<open>MaxRetry\<close> the function panics
  before the loop, having made no call.)
\<close>

theorem BalanceChat_upstream_calls_bounded:
  "clampRetries (MaxRetry p) = max (MaxRetry p) 1 \<and>
   (attempt cl p ap e s = (r, s') \<longrightarrow>
      http_calls s' = http_calls s \<or>
      (http_calls s' = http_calls s + 1 \<and> retry s' = retry s + 1)) \<and>
   int (http_calls (snd (BalanceChat cl p envs))) \<le> retry (snd (BalanceChat cl p envs)) \<and>
   retry (snd (BalanceChat cl p envs)) \<le> max (MaxRetry p) 1 \<and>
   int (http_calls (snd (BalanceChat cl p envs))) \<le> max (MaxRetry p) 1 \<and>
   (clampRetries (MaxRetry p) \<le> retry s \<longrightarrow>
      retryLoop cl p (clampRetries (MaxRetry p)) ap envs s =
        (Some (Failure ''maximum retry attempts reached''), s))"
proof -
  have clamp: "clampRetries (MaxRetry p) = max (MaxRetry p) 1"
    by (simp add: clampRetries_def)
  have step: "attempt cl p ap e s = (r, s') \<longrightarrow>
      http_calls s' = http_calls s \<or>
      (http_calls s' = http_calls s + 1 \<and> retry s' = retry s + 1)"
    using attempt_step by blast
  obtain r0 st where run: "BalanceChat cl p envs = (r0, st)"
    by (cases "BalanceChat cl p envs")
  have whole: "int (http_calls st) \<le> retry st \<and> retry st \<le> max (MaxRetry p) 1"
  proof (cases "MaxRetry p < 0 \<or> countActiveProviders p = 0")
    case True
    then have "http_calls st = 0 \<and> retry st = 0"
      using run by (auto simp: BalanceChat_def Let_def http_calls_def emit_def split: if_splits)
    then show ?thesis by simp
  next
    case False
    let ?s1 = "emit [NewBalancer (newBalancer (Strategy p))]
                 \<lparr>retry = 0, cooldownSkipped = 0, actions = []\<rparr>"
    from False run
    have loop: "retryLoop cl p (clampRetries (MaxRetry p)) (countActiveProviders p) envs ?s1 =
                (r0, st)"
      by (simp add: BalanceChat_def Let_def)
    have "retry ?s1 \<le> clampRetries (MaxRetry p)" by (simp add: clampRetries_def)
    moreover have "int (http_calls ?s1) \<le> retry ?s1" by (simp add: http_calls_def emit_def)
    ultimately show ?thesis
      using retryLoop_bound[OF loop] clamp by simp
  qed
  have fin: "clampRetries (MaxRetry p) \<le> retry s \<longrightarrow>
      retryLoop cl p (clampRetries (MaxRetry p)) ap envs s =
        (Some (Failure ''maximum retry attempts reached''), s)"
    by (simp add: retryLoop_done)
  from clamp step whole fin run show ?thesis by simp
qed

text \<open>
  With \<open>MaxRetry = 0\<close> the bound is 1: the first upstream call answers 500, and the loop
  ends after it although a second association is left.
\<close>

theorem BalanceChat_upstream_calls_bounded_witness:
  "clampRetries (MaxRetry (exMeta 0)) = 1 \<and>
   attempt ClassifyStatusSpec (exMeta 0) 2 (envStatus 1 500) exState =
     (None, snd (attempt ClassifyStatusSpec (exMeta 0) 2 (envStatus 1 500) exState)) \<and>
   http_calls (snd (attempt ClassifyStatusSpec (exMeta 0) 2 (envStatus 1 500) exState)) =
     http_calls exState + 1 \<and>
   retry (snd (attempt ClassifyStatusSpec (exMeta 0) 2 (envStatus 1 500) exState)) =
     retry exState + 1 \<and>
   fst (BalanceChat ClassifyStatusSpec (exMeta 0) [envStatus 1 500, envStatus 2 200]) =
     Some (Failure ''maximum retry attempts reached'') \<and>
   http_calls (snd (BalanceChat ClassifyStatusSpec (exMeta 0)
                      [envStatus 1 500, envStatus 2 200])) = 1 \<and>
   int (http_calls (snd (BalanceChat ClassifyStatusSpec (exMeta 0)
                           [envStatus 1 500, envStatus 2 200]))) \<le> max (MaxRetry (exMeta 0)) 1 \<and>
   clampRetries (MaxRetry (exMeta 0)) \<le> retry (exState\<lparr>retry := 1\<rparr>) \<and>
   retryLoop ClassifyStatusSpec (exMeta 0) (clampRetries (MaxRetry (exMeta 0))) 2
       [envStatus 1 500, envStatus 2 200] (exState\<lparr>retry := 1\<rparr>) =
     (Some (Failure ''maximum retry attempts reached''), exState\<lparr>retry := 1\<rparr>)"
  using BalanceChat_upstream_calls_bounded
    [where p = "exMeta 0" and cl = ClassifyStatusSpec and ap = 2 and e = "envStatus 1 500"
       and s = "exState\<lparr>retry := 1\<rparr>" and envs = "[envStatus 1 500, envStatus 2 200]"
       and r = None
       and s' = "snd (attempt ClassifyStatusSpec (exMeta 0) 2 (envStatus 1 500) exState)"]
  by (simp add: ex_defs run_defs)

section \<open>The retry loop: associations in cooldown\<close>







section \<open>The retry loop: a status other than 200\<close>

text \<open>
  Claim C3. When the upstream answers with a status other than 200, the pass reads the
  body, sends the retry-log row, classifies the status, calls cooldown \<open>OnError\<close> with that
  category and, when a key was drawn (the key id is positive), key-pool \<open>OnError\<close> with the
  same category; then it calls \<open>balancer.Reduce(id)\<close> if the category is \<open>key\<close> and
  \<open>balancer.Delete(id)\<close> otherwise, closes the body, and continues the loop (the pass
  returns nothing). This holds for every classifier.
\<close>

theorem non_200_status_handling:
  assumes "env_select e = SelectDefault" and "env_pop e = Inr ident"
    and "map_of (ModelWithProviderMap p) ident = Some m" and "\<not> env_inCooldown e"
    and "env_providersNew e = None" and "env_buildReq e = None"
    and "env_clientDo e = Inr status" and "status \<noteq> 200"
  shows "attempt ClassifyStatus p ap e s =
     (None,
      s\<lparr>retry := retry s + 1, cooldownSkipped := 0,
        actions := actions s @
          [BalancerPop,
           KeyPoolPick (case map_of (ProviderMap p) (mwp_ProviderID m) of
                          None \<Rightarrow> 0 | Some pr \<Rightarrow> prov_ID pr),
           ClientDo ident, ReadBody, RetryLogSend (retry s + 1),
           CooldownOnError (mwp_ID m) (ClassifyStatus status)] @
          (case env_keyPick e of
             None \<Rightarrow> []
           | Some keyID \<Rightarrow>
               if keyID > 0 then [KeyPoolOnError keyID (ClassifyStatus status)] else []) @
          [if ClassifyStatus status = CategoryKey then BalancerReduce ident
           else BalancerDelete ident,
           BodyClose]\<rparr>)"
  using assms
  by (simp add: attempt_def sendAttempt_def onBadStatus_def onErrorFeedback_def emit_def Let_def
      split: option.splits)

text \<open>Status 429 is of category \<open>key\<close>: the association is reduced, not deleted.\<close>

theorem non_200_status_handling_witness:
  "env_select (envStatus 2 429) = SelectDefault \<and> env_pop (envStatus 2 429) = Inr 2 \<and>
   map_of (ModelWithProviderMap (exMeta 3)) 2 = Some (exAssoc 2 2) \<and>
   \<not> env_inCooldown (envStatus 2 429) \<and> env_providersNew (envStatus 2 429) = None \<and>
   env_buildReq (envStatus 2 429) = None \<and> env_clientDo (envStatus 2 429) = Inr 429 \<and>
   (429 :: int) \<noteq> 200 \<and>
   attempt ClassifyStatusSpec (exMeta 3) 2 (envStatus 2 429) exState =
     (None,
      \<lparr>retry = 1, cooldownSkipped = 0,
       actions = [BalancerPop, KeyPoolPick 2, ClientDo 2, ReadBody, RetryLogSend 1,
                  CooldownOnError 2 CategoryKey, KeyPoolOnError 7 CategoryKey,
                  BalancerReduce 2, BodyClose]\<rparr>)"
  using non_200_status_handling
    [where e = "envStatus 2 429" and ident = 2 and p = "exMeta 3" and m = "exAssoc 2 2"
       and status = 429 and ClassifyStatus = ClassifyStatusSpec and ap = 2 and s = exState]
  by (simp add: ex_defs)

section \<open>The balancer that \<open>BalanceChat\<close> builds\<close>








section \<open>The eligibility query\<close>

lemma dom_fold_update:
  "fst ` set (fold (\<lambda>x acc. if P x then AList.update (k x) (v x) acc else acc) xs acc0) =
   fst ` set acc0 \<union> {k x | x. x \<in> set xs \<and> P x}"
  by (induction xs arbitrary: acc0) (auto simp: dom_update)

lemma dom_keyByID: "fst ` set (keyByID ps) = prov_ID ` set ps"
proof -
  have "keyByID ps = fold (\<lambda>x acc. if True then AList.update (prov_ID x) x acc else acc) ps []"
    by (simp add: keyByID_def)
  then show ?thesis
    using dom_fold_update[of "\<lambda>_. True" prov_ID "\<lambda>x. x" ps "[]"] by auto
qed

lemma dom_buildModelWithProviderMap:
  "fst ` set (buildModelWithProviderMap ms) = mwp_ID ` set ms"
proof -
  have "buildModelWithProviderMap ms =
        fold (\<lambda>x acc. if True then AList.update (mwp_ID x) x acc else acc) ms []"
    by (simp add: buildModelWithProviderMap_def)
  then show ?thesis
    using dom_fold_update[of "\<lambda>_. True" mwp_ID "\<lambda>x. x" ms "[]"] by auto
qed

lemma dom_buildWeightItems:
  "fst ` set (buildWeightItems pm ms) =
   {mwp_ID m | m. m \<in> set ms \<and> mwp_ProviderID m \<in> fst ` set pm}"
proof -
  have feq: "(\<lambda>m acc. case map_of pm (mwp_ProviderID m) of
                        None \<Rightarrow> acc
                      | Some _ \<Rightarrow> AList.update (mwp_ID m) (mwp_Weight m) acc) =
             (\<lambda>m acc. if mwp_ProviderID m \<in> fst ` set pm
                       then AList.update (mwp_ID m) (mwp_Weight m) acc else acc)"
  proof (intro ext)
    fix m acc
    have "(mwp_ProviderID m \<in> fst ` set pm) = (map_of pm (mwp_ProviderID m) \<noteq> None)"
      by (simp add: map_of_eq_None_iff)
    then show "(case map_of pm (mwp_ProviderID m) of
                  None \<Rightarrow> acc
                | Some _ \<Rightarrow> AList.update (mwp_ID m) (mwp_Weight m) acc) =
               (if mwp_ProviderID m \<in> fst ` set pm
                then AList.update (mwp_ID m) (mwp_Weight m) acc else acc)"
      by (simp split: option.splits)
  qed
  have "buildWeightItems pm ms =
     fold (\<lambda>m acc. if mwp_ProviderID m \<in> fst ` set pm
                    then AList.update (mwp_ID m) (mwp_Weight m) acc else acc) ms []"
    by (simp only: buildWeightItems_def feq)
  then show ?thesis
    using dom_fold_update[of "\<lambda>m. mwp_ProviderID m \<in> fst ` set pm" mwp_ID mwp_Weight ms "[]"]
    by simp
qed

text \<open>
  Claim C8, as stated, fails: the check for "no association" comes before the
  intersection with the providers of the request's style. The store of the example has
  two enabled associations of \<open>m1\<close> and no provider of type \<open>openai-res\<close>; for that style
  no association survives the whole filter, and the query returns a result, with both
  associations in its association map and an empty weight set.
\<close>

theorem eligibility_empty_weight_set_counterexample:
  "ProvidersWithMetaBymodelsName exDB ''openai-res'' (exBefore exBody) =
     Inr \<lparr>ModelWithProviderMap = [(1, exAssoc 1 1), (2, exAssoc 2 2)],
          WeightItems = [],
          ProviderMap = [],
          MaxRetry = 3, TimeOut = 60, IOLog = False, Strategy = ''lottery''\<rparr> \<and>
   styleProviderIDs exDB ''openai-res'' = {} \<and>
   ProvidersWithMetaBymodelsName exDB ''openai-res'' (exBefore exBody) \<noteq>
     Inl (''not provider for model '' @ ''m1'')"
  by (auto simp: query_defs)

text \<open>
  Claim C8, amended. When the store answers every query and has the model, the
  eligibility query fails with \<open>not provider for model <name>\<close> exactly when no enabled
  association of the model survives the capability filter. Otherwise it returns a
  result: its association map holds every association that survived the capability
  filter, and its weight set holds those of them whose provider has the type of the
  request's style (the intersection with the style's providers), which may be none.
\<close>

theorem eligibility_check_precedes_style_filter:
  assumes "db_firstModelErr db = None" and "db_findAssocErr db = None"
    and "db_findProviderErr db = None"
    and "filter (\<lambda>m. model_Name m = before_Model before) (db_models db) = model # others"
  shows "((ProvidersWithMetaBymodelsName db style before =
             Inl (''not provider for model '' @ before_Model before)) =
          (filter (assocMatches (model_ID model) before) (db_modelWithProviders db) = [])) \<and>
         (filter (assocMatches (model_ID model) before) (db_modelWithProviders db) \<noteq> [] \<longrightarrow>
          (\<exists>r. ProvidersWithMetaBymodelsName db style before = Inr r \<and>
               fst ` set (ModelWithProviderMap r) =
                 mwp_ID ` set (filter (assocMatches (model_ID model) before)
                                      (db_modelWithProviders db)) \<and>
               fst ` set (WeightItems r) =
                 {mwp_ID m | m.
                    m \<in> set (filter (assocMatches (model_ID model) before)
                                    (db_modelWithProviders db)) \<and>
                    mwp_ProviderID m \<in> styleProviderIDs db style}))"
proof (intro conjI impI)
  let ?ms = "filter (assocMatches (model_ID model) before) (db_modelWithProviders db)"
  show "(ProvidersWithMetaBymodelsName db style before =
            Inl (''not provider for model '' @ before_Model before)) = (?ms = [])"
    using assms by (simp add: ProvidersWithMetaBymodelsName_def Let_def)
  assume ne: "?ms \<noteq> []"
  let ?ps = "filter (\<lambda>pr. prov_ID pr \<in> set (map mwp_ProviderID ?ms) \<and> prov_Type pr = style)
                    (db_providers db)"
  have run: "ProvidersWithMetaBymodelsName db style before =
     Inr \<lparr>ModelWithProviderMap = buildModelWithProviderMap ?ms,
          WeightItems = buildWeightItems (keyByID ?ps) ?ms,
          ProviderMap = keyByID ?ps,
          MaxRetry = model_MaxRetry model, TimeOut = model_TimeOut model,
          IOLog = (case model_IOLog model of None \<Rightarrow> False | Some b \<Rightarrow> b),
          Strategy = model_Strategy model\<rparr>"
    using assms ne by (simp add: ProvidersWithMetaBymodelsName_def Let_def)
  have w: "fst ` set (buildWeightItems (keyByID ?ps) ?ms) =
        {mwp_ID m | m. m \<in> set ?ms \<and> mwp_ProviderID m \<in> styleProviderIDs db style}"
  proof -
    have "\<And>m. m \<in> set ?ms \<Longrightarrow>
        (mwp_ProviderID m \<in> prov_ID ` set ?ps) = (mwp_ProviderID m \<in> styleProviderIDs db style)"
      unfolding styleProviderIDs_def by force
    then show ?thesis
      unfolding dom_buildWeightItems dom_keyByID by blast
  qed
  show "\<exists>r. ProvidersWithMetaBymodelsName db style before = Inr r \<and>
             fst ` set (ModelWithProviderMap r) = mwp_ID ` set ?ms \<and>
             fst ` set (WeightItems r) =
               {mwp_ID m | m. m \<in> set ?ms \<and> mwp_ProviderID m \<in> styleProviderIDs db style}"
    using run w by (simp add: dom_buildModelWithProviderMap)
qed

text \<open>
  For the style \<open>anthropic\<close> the same store gives a result whose weight set holds the one
  association with a provider of that type.
\<close>

theorem eligibility_check_precedes_style_filter_witness:
  "db_firstModelErr exDB = None \<and> db_findAssocErr exDB = None \<and>
   db_findProviderErr exDB = None \<and>
   filter (\<lambda>m. model_Name m = before_Model (exBefore exBody)) (db_models exDB) = exModel # [] \<and>
   filter (assocMatches (model_ID exModel) (exBefore exBody)) (db_modelWithProviders exDB) \<noteq> [] \<and>
   ProvidersWithMetaBymodelsName exDB ''anthropic'' (exBefore exBody) \<noteq>
     Inl (''not provider for model '' @ before_Model (exBefore exBody)) \<and>
   WeightItems (projr (ProvidersWithMetaBymodelsName exDB ''anthropic'' (exBefore exBody))) =
     [(2, 1)]"
proof -
  have h: "db_firstModelErr exDB = None" "db_findAssocErr exDB = None"
    "db_findProviderErr exDB = None"
    "filter (\<lambda>m. model_Name m = before_Model (exBefore exBody)) (db_models exDB) = exModel # []"
    by (simp_all add: query_defs)
  have ne: "filter (assocMatches (model_ID exModel) (exBefore exBody))
                   (db_modelWithProviders exDB) \<noteq> []"
    by (simp add: query_defs)
  have w: "WeightItems (projr (ProvidersWithMetaBymodelsName exDB ''anthropic''
                                 (exBefore exBody))) = [(2, 1)]"
    by (simp add: query_defs)
  from eligibility_check_precedes_style_filter[OF h, of "''anthropic''"] ne
  have "ProvidersWithMetaBymodelsName exDB ''anthropic'' (exBefore exBody) \<noteq>
          Inl (''not provider for model '' @ before_Model (exBefore exBody))"
    by blast
  with h ne w show ?thesis by blast
qed

section \<open>The cache key\<close>

text \<open>
  A key is produced only for a request that does not stream and whose context holds a
  \<open>uint\<close> under \<open>ContextKeyAuthKeyID\<close>; that \<open>uint\<close> is the key's \<open>AuthKeyID\<close>.
\<close>

lemma BuildCacheKey_ok:
  "snd (BuildCacheKey marshal sha256hex ctx style before) \<Longrightarrow>
   \<not> before_Stream before \<and>
   (\<exists>a. ctx_AuthKeyID ctx = Some (UintValue a) \<and>
        AuthKeyID (key_Scope (fst (BuildCacheKey marshal sha256hex ctx style before))) = a)"
  by (auto simp: BuildCacheKey_def split: if_splits option.splits CtxValue.splits sum.splits)

text \<open>
  Claim C4. The claim holds for \<open>stream\<close> and for the presence of \<open>AuthKeyID\<close>, and fails
  for "non-zero": \<open>BuildCacheKey\<close> only tests that the context value is a \<open>uint\<close>. For a
  context that carries \<open>AuthKeyID = 0\<close> and a request that does not stream, it answers
  \<open>ok = true\<close> with a key whose \<open>AuthKeyID\<close> is 0, a key that \<open>ValidateCacheKey\<close> of the
  same file rejects with \<open>AuthKeyID cannot be zero\<close>.
\<close>

theorem BuildCacheKey_zero_AuthKeyID:
  "BuildCacheKey exMarshal exDigest \<lparr>ctx_AuthKeyID = Some (UintValue 0)\<rparr> ''openai''
     (exBefore exBody) =
     (\<lparr>key_Scope = \<lparr>AuthKeyID = 0, Style = ''openai'', scope_Model = ''m1'',
                     Mode = ''chat_completions'', scope_Stream = False\<rparr>,
       BodyHash = ''sha256:{model:m1,temperature:0.2,}''\<rparr>, True) \<and>
   ValidateCacheKey (fst (BuildCacheKey exMarshal exDigest \<lparr>ctx_AuthKeyID = Some (UintValue 0)\<rparr>
                            ''openai'' (exBefore exBody))) = Some ''AuthKeyID cannot be zero''"
  by (simp add: key_defs)

section \<open>The body hash\<close>

text \<open>Decoding an object: the last member with a given name wins.\<close>

lemma map_of_fold_update:
  "map_of (fold (\<lambda>(k, v) acc. AList.update k v acc) ms acc0) = map_of acc0 ++ map_of (rev ms)"
proof (induction ms arbitrary: acc0)
  case Nil
  show ?case by simp
next
  case (Cons x xs)
  obtain k v where x: "x = (k, v)" by (cases x)
  have "map_of (fold (\<lambda>(k, v) acc. AList.update k v acc) (x # xs) acc0) =
        map_of (AList.update k v acc0) ++ map_of (rev xs)"
    using Cons.IH[of "AList.update k v acc0"] x by simp
  also have "\<dots> = map_of acc0 ++ map_of (rev (x # xs))"
    by (simp add: x update_conv' fun_eq_iff map_add_def split: option.splits)
  finally show ?case .
qed

lemma jsonUnmarshal_object:
  "jsonUnmarshal (JsonObject ms) = Inr (fold (\<lambda>(k, v) acc. AList.update k v acc) ms [])"
  by (simp add: jsonUnmarshal_def)

text \<open>The hash depends on the body only through the values of the whitelisted fields.\<close>

lemma normalize_cong:
  assumes "\<And>k. k \<in> set semanticFields \<Longrightarrow> map_of (rev ms) k = map_of (rev ms') k"
  shows "normalizeAndHashRequestBody marshal sha256hex (JsonObject ms) =
         normalizeAndHashRequestBody marshal sha256hex (JsonObject ms')"
proof -
  let ?raw = "fold (\<lambda>(k, v) acc. AList.update k v acc) ms []"
  let ?raw' = "fold (\<lambda>(k, v) acc. AList.update k v acc) ms' []"
  have agree: "\<And>k. k \<in> set semanticFields \<Longrightarrow> map_of ?raw k = map_of ?raw' k"
    using assms by (simp add: map_of_fold_update)
  have "fold (\<lambda>field acc. case map_of ?raw field of
                            None \<Rightarrow> acc
                          | Some v \<Rightarrow> AList.update field v acc) semanticFields [] =
        fold (\<lambda>field acc. case map_of ?raw' field of
                            None \<Rightarrow> acc
                          | Some v \<Rightarrow> AList.update field v acc) semanticFields []"
    by (rule fold_cong) (simp_all add: agree)
  then show ?thesis
    by (simp add: normalizeAndHashRequestBody_def jsonUnmarshal_object Let_def)
qed

lemma map_of_filter_key:
  "P k \<Longrightarrow> map_of (filter (\<lambda>(a, b). P a) xs) k = map_of xs k"
  by (induction xs) auto

text \<open>
  Claim C5. Whatever \<open>json.Marshal\<close> and SHA-256 compute: two object bodies with the
  same members in a different order (member names distinct) have the same body hash;
  two object bodies with the same whitelisted members (in the same order), whatever
  their other members, have the same body hash; in particular an extra
  \<open>user_id_opaque\<close> member, which is not on the whitelist, does not change the hash.
\<close>

theorem body_hash_ignores_order_and_extra_fields:
  "(distinct (map fst ms) \<and> mset ms' = mset ms \<longrightarrow>
      normalizeAndHashRequestBody marshal sha256hex (JsonObject ms') =
      normalizeAndHashRequestBody marshal sha256hex (JsonObject ms)) \<and>
   (filter (\<lambda>(k, v). k \<in> set semanticFields) ns' =
    filter (\<lambda>(k, v). k \<in> set semanticFields) ns \<longrightarrow>
      normalizeAndHashRequestBody marshal sha256hex (JsonObject ns') =
      normalizeAndHashRequestBody marshal sha256hex (JsonObject ns)) \<and>
   ''user_id_opaque'' \<notin> set semanticFields \<and>
   normalizeAndHashRequestBody marshal sha256hex (JsonObject (ms @ [(''user_id_opaque'', v)])) =
   normalizeAndHashRequestBody marshal sha256hex (JsonObject ms)"
proof (intro conjI impI)
  assume h: "distinct (map fst ms) \<and> mset ms' = mset ms"
  then have "mset (map fst ms') = mset (map fst ms)" by (metis mset_map)
  then have d': "distinct (map fst ms')" using h by (metis mset_eq_imp_distinct_iff)
  from h have s: "set ms' = set ms" by (metis mset_eq_setD)
  have "map_of (rev ms') = map_of (rev ms)"
    by (rule map_of_inject_set[THEN iffD2]) (use h d' s in \<open>simp_all add: rev_map[symmetric]\<close>)
  then show "normalizeAndHashRequestBody marshal sha256hex (JsonObject ms') =
      normalizeAndHashRequestBody marshal sha256hex (JsonObject ms)"
    by (intro normalize_cong) simp
next
  assume h: "filter (\<lambda>(k, v). k \<in> set semanticFields) ns' =
             filter (\<lambda>(k, v). k \<in> set semanticFields) ns"
  show "normalizeAndHashRequestBody marshal sha256hex (JsonObject ns') =
      normalizeAndHashRequestBody marshal sha256hex (JsonObject ns)"
  proof (rule normalize_cong)
    fix k assume k: "k \<in> set semanticFields"
    have "map_of (rev ns') k = map_of (filter (\<lambda>(a, b). a \<in> set semanticFields) (rev ns')) k"
      using map_of_filter_key[of "\<lambda>a. a \<in> set semanticFields" k "rev ns'"] k by simp
    also have "\<dots> = map_of (filter (\<lambda>(a, b). a \<in> set semanticFields) (rev ns)) k"
      using h by (simp add: rev_filter[symmetric])
    also have "\<dots> = map_of (rev ns) k"
      using map_of_filter_key[of "\<lambda>a. a \<in> set semanticFields" k "rev ns"] k by simp
    finally show "map_of (rev ns') k = map_of (rev ns) k" .
  qed
next
  show u: "''user_id_opaque'' \<notin> set semanticFields" by (simp add: semanticFields_def)
  show "normalizeAndHashRequestBody marshal sha256hex (JsonObject (ms @ [(''user_id_opaque'', v)])) =
    normalizeAndHashRequestBody marshal sha256hex (JsonObject ms)"
    by (rule normalize_cong) (use u in auto)
qed

text \<open>
  The members of the example body in another order; and two bodies that differ in
  \<open>user_id_opaque\<close> and in a \<open>trace\<close> member only.
\<close>

theorem body_hash_ignores_order_and_extra_fields_witness:
  "distinct (map fst [(''model'', ''m1''), (''temperature'', ''0.2''),
                      (''user_id_opaque'', ''abc'')]) \<and>
   mset [(''temperature'', ''0.2''), (''user_id_opaque'', ''abc''), (''model'', ''m1'')] =
   mset [(''model'', ''m1''), (''temperature'', ''0.2''), (''user_id_opaque'', ''abc'')] \<and>
   normalizeAndHashRequestBody exMarshal exDigest
     (JsonObject [(''temperature'', ''0.2''), (''user_id_opaque'', ''abc''), (''model'', ''m1'')]) =
   normalizeAndHashRequestBody exMarshal exDigest
     (JsonObject [(''model'', ''m1''), (''temperature'', ''0.2''), (''user_id_opaque'', ''abc'')]) \<and>
   filter (\<lambda>(k, v). k \<in> set semanticFields)
     [(''trace'', ''1''), (''model'', ''m1''), (''user_id_opaque'', ''xyz''), (''temperature'', ''0.2'')] =
   filter (\<lambda>(k, v). k \<in> set semanticFields)
     [(''model'', ''m1''), (''temperature'', ''0.2''), (''user_id_opaque'', ''abc'')] \<and>
   normalizeAndHashRequestBody exMarshal exDigest
     (JsonObject [(''trace'', ''1''), (''model'', ''m1''), (''user_id_opaque'', ''xyz''),
                  (''temperature'', ''0.2'')]) =
   normalizeAndHashRequestBody exMarshal exDigest
     (JsonObject [(''model'', ''m1''), (''temperature'', ''0.2''), (''user_id_opaque'', ''abc'')]) \<and>
   normalizeAndHashRequestBody exMarshal exDigest
     (JsonObject [(''model'', ''m1''), (''temperature'', ''0.2''), (''user_id_opaque'', ''abc'')]) =
   Inr ''sha256:{model:m1,temperature:0.2,}''"
  using body_hash_ignores_order_and_extra_fields
    [where ms = "[(''model'', ''m1''), (''temperature'', ''0.2''), (''user_id_opaque'', ''abc'')]"
       and ms' = "[(''temperature'', ''0.2''), (''user_id_opaque'', ''abc''), (''model'', ''m1'')]"
       and ns = "[(''model'', ''m1''), (''temperature'', ''0.2''), (''user_id_opaque'', ''abc'')]"
       and ns' = "[(''trace'', ''1''), (''model'', ''m1''), (''user_id_opaque'', ''xyz''),
                   (''temperature'', ''0.2'')]"
       and marshal = exMarshal and sha256hex = exDigest and v = "''abc''"]
  by (simp add: key_defs)

section \<open>The cache: \<open>Stats\<close> and \<open>Get\<close>\<close>

lemma Get_hit_iff: "(fst (Get c now key) \<noteq> None) = hits c now (makeMapKey key)"
  by (auto simp: Get_def hits_def Let_def split: option.splits)

lemma hits_stored: "hits c now mapKey \<Longrightarrow> mapKey \<in> set (map fst (data c))"
  by (auto simp: hits_def split: option.splits dest: map_of_SomeD intro: rev_image_eqI)

text \<open>
  The map keys of a cache stay distinct under \<open>Set\<close> and \<open>Get\<close>, so that the length of
  the list is the number of entries of the map.
\<close>

lemma evictOldestLocked_distinct:
  "distinct (map fst (data c)) \<Longrightarrow> distinct (map fst (data (evictOldestLocked c)))"
  by (simp add: evictOldestLocked_def Let_def distinct_delete split: prod.splits)

lemma Set_distinct:
  "distinct (map fst (data c)) \<Longrightarrow> distinct (map fst (data (snd (Set c now key v ttl))))"
  by (cases v) (simp_all add: Set_def Let_def distinct_update evictOldestLocked_distinct)

lemma Get_distinct:
  "distinct (map fst (data c)) \<Longrightarrow> distinct (map fst (data (snd (Get c now key))))"
  by (simp add: Get_def Let_def distinct_delete split: option.splits)

lemma NewMemoryCache_distinct: "distinct (map fst (data (NewMemoryCache n)))"
  by (simp add: NewMemoryCache_def NewMemoryCacheWithOptions_def)

text \<open>
  Claim C9, as stated, fails: \<open>Stats\<close> returns the size of the map, and an expired entry
  stays in the map until a \<open>Get\<close> for its key removes it. After one \<open>Set\<close> at time 1000
  with a TTL of five minutes, at time 300000001001 the entry is expired: \<open>Get\<close> reports
  a miss for its key, no key is a hit, and \<open>Stats\<close> says one entry.
\<close>

theorem Stats_entries_counterexample:
  "Entries (Stats exCache) = 1 \<and>
   fst (Get exCache 300000001001 exKey) = None \<and>
   observable exCache 300000001001 = [] \<and>
   Entries (Stats exCache) \<noteq> int (length (observable exCache 300000001001))"
  by (simp add: cache_defs)

text \<open>
  Claim C9, amended. The \<open>Entries\<close> field of \<open>Stats\<close> is the number of stored entries,
  expired or not: the number of stored keys for which \<open>Get\<close> would report a hit plus the
  number of stored keys whose entry is expired and still in the map. It equals the
  number of keys for which \<open>Get\<close> would report a hit when no stored entry is expired at
  the time of the call. (A \<open>Get\<close> for a key is a hit exactly when \<open>hits\<close> holds of its
  map key.)
\<close>

theorem Stats_entries_counts_stored:
  "(fst (Get c now key) \<noteq> None) = hits c now (makeMapKey key) \<and>
   Entries (Stats c) =
     int (length (observable c now)) +
     int (length (filter (\<lambda>mapKey. \<not> hits c now mapKey) (map fst (data c)))) \<and>
   ((\<forall>(mapKey, e) \<in> set (data c). \<not> isExpired now e) \<and> distinct (map fst (data c)) \<longrightarrow>
      Entries (Stats c) = int (length (observable c now)) \<and>
      Entries (Stats c) = int (card {mapKey. hits c now mapKey}))"
proof (intro conjI impI)
  show "(fst (Get c now key) \<noteq> None) = hits c now (makeMapKey key)"
    by (rule Get_hit_iff)
next
  have "length (map fst (data c)) =
        length (filter (hits c now) (map fst (data c))) +
        length (filter (\<lambda>mapKey. \<not> hits c now mapKey) (map fst (data c)))"
    by (rule sum_length_filter_compl[symmetric])
  then show "Entries (Stats c) =
     int (length (observable c now)) +
     int (length (filter (\<lambda>mapKey. \<not> hits c now mapKey) (map fst (data c))))"
    by (simp add: Stats_def observable_def)
next
  assume h: "(\<forall>(mapKey, e) \<in> set (data c). \<not> isExpired now e) \<and> distinct (map fst (data c))"
  have all: "\<And>mk. mk \<in> set (map fst (data c)) \<Longrightarrow> hits c now mk"
  proof -
    fix mk assume "mk \<in> set (map fst (data c))"
    then obtain e where "map_of (data c) mk = Some e"
      by (metis map_of_eq_None_iff not_None_eq set_map)
    moreover from this have "(mk, e) \<in> set (data c)" by (rule map_of_SomeD)
    ultimately show "hits c now mk" using h by (auto simp: hits_def)
  qed
  then have f: "filter (hits c now) (map fst (data c)) = map fst (data c)" by simp
  then show "Entries (Stats c) = int (length (observable c now))"
    by (simp add: Stats_def observable_def)
  have "{mapKey. hits c now mapKey} = set (map fst (data c))"
    using all hits_stored by blast
  then have "card {mapKey. hits c now mapKey} = length (map fst (data c))"
    using h distinct_card by metis
  then show "Entries (Stats c) = int (card {mapKey. hits c now mapKey})"
    by (simp add: Stats_def)
qed

text \<open>At time 2000 the entry of the example is not expired: one entry, one hit.\<close>

theorem Stats_entries_counts_stored_witness:
  "list_all (\<lambda>(mapKey, e). \<not> isExpired 2000 e) (data exCache) \<and>
   distinct (map fst (data exCache)) \<and>
   Entries (Stats exCache) = int (length (observable exCache 2000)) \<and>
   Entries (Stats exCache) = 1 \<and>
   fst (Get exCache 2000 exKey) \<noteq> None"
  using Stats_entries_counts_stored[where c = exCache and now = 2000 and key = exKey]
  by (simp add: cache_defs)

section \<open>The style processors: throughput\<close>

text \<open>
  What the three processors return as \<open>Tps\<close>: the OpenAI and OpenAI-Responses
  processors always divide; the Anthropic processor divides only by a positive number of
  seconds and returns 0 otherwise.
\<close>

lemma ProcesserOpenAI_Tps:
  assumes "ProcesserOpenAI lib cancelAt body stream sinceFirst sinceEnd = Inr (chatLog, out)"
  shows "ChunkTime chatLog = sinceEnd - FirstChunkTime chatLog \<and>
         Tps chatLog = float64Div (real_of_int (TotalTokens (log_Usage chatLog))) (Seconds (ChunkTime chatLog))"
  using assms
  by (auto simp: ProcesserOpenAI_def Let_def split: prod.splits sum.splits option.splits if_splits)

lemma ProcesserOpenAiRes_Tps:
  assumes "ProcesserOpenAiRes lib cancelAt body stream sinceFirst sinceEnd = Inr (chatLog, out)"
  shows "ChunkTime chatLog = sinceEnd - FirstChunkTime chatLog \<and>
         Tps chatLog = float64Div (real_of_int (TotalTokens (log_Usage chatLog))) (Seconds (ChunkTime chatLog))"
  using assms
  by (auto simp: ProcesserOpenAiRes_def Let_def
      split: prod.splits sum.splits option.splits if_splits)

lemma ProcesserAnthropic_Tps:
  assumes "ProcesserAnthropic lib cancelAt body stream sinceFirst sinceEnd = Inr (chatLog, out)"
  shows "ChunkTime chatLog = sinceEnd - FirstChunkTime chatLog \<and>
         Tps chatLog = (if ChunkTime chatLog > 0
                    then Finite (real_of_int (TotalTokens (log_Usage chatLog)) / Seconds (ChunkTime chatLog))
                    else Finite 0)"
  using assms
  by (auto simp: ProcesserAnthropic_def Let_def float64Div_def Seconds_def
      split: prod.splits sum.splits option.splits if_splits)

text \<open>
  Claim C6. The formula holds for the three processors, with
  \<open>chunk_time = now - start - firstChunkTime\<close>. The guard for a denominator \<open>\<le> 0\<close> is only
  in the Anthropic processor. When the two clock readings are equal (\<open>chunk_time = 0\<close>),
  on a one-line body whose usage says 100 tokens, the OpenAI and the OpenAI-Responses
  processors return \<open>+Inf\<close> as \<open>Tps\<close>, where the claim, and the Anthropic processor, say 0.
\<close>

theorem Tps_unguarded_in_OpenAI_processors:
  "(case ProcesserOpenAI exLib None exBodyOneLine False 5000000 5000000 of
      Inl err \<Rightarrow> False
    | Inr (chatLog, out) \<Rightarrow>
        ChunkTime chatLog = 0 \<and> TotalTokens (log_Usage chatLog) = 100 \<and> Tps chatLog = PosInf) \<and>
   (case ProcesserOpenAiRes exLib None exBodyOneLine False 5000000 5000000 of
      Inl err \<Rightarrow> False
    | Inr (chatLog, out) \<Rightarrow>
        ChunkTime chatLog = 0 \<and> TotalTokens (log_Usage chatLog) = 100 \<and> Tps chatLog = PosInf) \<and>
   (case ProcesserAnthropic exLib None exBodyOneLine False 5000000 5000000 of
      Inl err \<Rightarrow> False
    | Inr (chatLog, out) \<Rightarrow> ChunkTime chatLog = 0 \<and> Tps chatLog = Finite 0) \<and>
   PosInf \<noteq> Finite 0"
  by (simp add: proc_defs)

section \<open>The style processors: a body that is not a stream\<close>

text \<open>
  In the branch for \<open>stream = false\<close> the loop stops at its first token: the output
  string is the first non-empty line of the body.
\<close>

lemma openAILoop_not_stream:
  "cancelAt \<noteq> Some i \<Longrightarrow>
   openAILoop lib False cancelAt i ((chunk, chunkSize) # rest) st =
     Inr ((setOfString chunk (st\<lparr>st_size := st_size st + chunkSize\<rparr>))
            \<lparr>st_usageStr := g_String (gjsonGet lib chunk ''usage'')\<rparr>, True)"
  by (simp add: Let_def)

text \<open>
  Claim C7. The claim holds for a body on one line and fails for a body whose JSON spans
  several lines: the processors read the body with a line scanner and, when the response
  is not a stream, take the first non-empty line for the whole body. On the four-line
  body of the example each of the three processors records \<open>{\<close> as the output string,
  counts one byte, and finds no usage; on the same JSON on one line the OpenAI processor
  records the body and finds the 100 tokens.
\<close>

theorem non_stream_output_is_first_line:
  "(case ProcesserOpenAI exLib None exBodyMultiLine False 5000000 9000000 of
      Inl err \<Rightarrow> False
    | Inr (chatLog, out) \<Rightarrow>
        OfString out = ''{'' \<and> Size chatLog = 1 \<and> TotalTokens (log_Usage chatLog) = 0) \<and>
   (case ProcesserOpenAiRes exLib None exBodyMultiLine False 5000000 9000000 of
      Inl err \<Rightarrow> False
    | Inr (chatLog, out) \<Rightarrow>
        OfString out = ''{'' \<and> Size chatLog = 1 \<and> TotalTokens (log_Usage chatLog) = 0) \<and>
   (case ProcesserAnthropic exLib None exBodyMultiLine False 5000000 9000000 of
      Inl err \<Rightarrow> False
    | Inr (chatLog, out) \<Rightarrow>
        OfString out = ''{'' \<and> Size chatLog = 1 \<and> TotalTokens (log_Usage chatLog) = 0) \<and>
   ''{'' \<noteq> exBodyMultiLine \<and>
   (case ProcesserOpenAI exLib None exBodyOneLine False 5000000 9000000 of
      Inl err \<Rightarrow> False
    | Inr (chatLog, out) \<Rightarrow>
        OfString out = exBodyOneLine \<and> Size chatLog = length exBodyOneLine \<and>
        TotalTokens (log_Usage chatLog) = 100)"
  by (simp add: proc_defs)

end
